theory Spec2Isabelle
  imports Complex_Main "HOL-Library.Numeral_Type"
begin

section \<open>Conventions of the embedding\<close>

text \<open>
  The long-range solvers (\<^verbatim>\<open>ForceEwald\<close>, \<^verbatim>\<open>ForceSPME\<close>/\<^verbatim>\<open>TPME\<close>) are embedded function by
  function. A \<^verbatim>\<open>double\<close> is modelled as a real number: the theory is about the arithmetic
  the kernels are written to perform, not about rounding. The constants \<^verbatim>\<open>PI\<close> and
  \<^verbatim>\<open>PI_SQRT\<close> of the source are the doubles nearest to \<open>\<pi>\<close> and \<open>\<surd>\<pi>\<close> and denote these
  numbers here. An \<^verbatim>\<open>int\<close> is an unbounded integer; a statement that ranges over \<^verbatim>\<open>_k_max\<close>
  bounds it so that every index the reciprocal-space kernels compute fits in 32 bits.

  A \<^verbatim>\<open>Kokkos::parallel_for\<close> over a range runs its body once per index. The bodies only
  accumulate into shared arrays (atomic adds of reals commute), so the loop is modelled in
  index order. The functions of the C library and of the external FFT and MPI layers that
  have no counterpart in HOL (\<^verbatim>\<open>erfc\<close>, \<^verbatim>\<open>atof\<close>, the transforms, the all-reduce) are
  parameters of the kernels that call them.
\<close>

datatype error = ConfigError | OutOfBounds | DivisionByZero | AssertionFailed

text \<open>
  A computation either finishes with a value and the state it leaves, or stops with an
  error and the state it had reached when it stopped.
\<close>

datatype ('a, 's) outcome =
    is_Done: Done (result: 'a) (state: 's)
  | Failed (failure: error) (state: 's)

fun foreach :: "'i list \<Rightarrow> ('i \<Rightarrow> 's \<Rightarrow> (unit, 's) outcome) \<Rightarrow> 's \<Rightarrow> (unit, 's) outcome" where
  "foreach [] body s = Done () s"
| "foreach (i # rest) body s =
     (case body i s of
        Done u s' \<Rightarrow> foreach rest body s'
      | Failed e s' \<Rightarrow> Failed e s')"

definition cdiv :: "real \<Rightarrow> real \<Rightarrow> error + real" where
  "cdiv a b = (if b = 0 then Inl DivisionByZero else Inr (a / b))"

definition PI :: real where
  "PI = pi"

definition PI_SQRT :: real where
  "PI_SQRT = sqrt pi"

section \<open>Particle container and simulation system\<close>

text \<open>
  The slices of the particle container: \<open>Positions a (idx, d)\<close> is \<^verbatim>\<open>x( idx, d )\<close>,
  \<open>Forces a (idx, d)\<close> is \<^verbatim>\<open>f( idx, d )\<close>, \<open>Charges a idx\<close> is \<^verbatim>\<open>q( idx )\<close> and
  \<open>Potentials a idx\<close> is \<^verbatim>\<open>p( idx )\<close>. The component \<open>d\<close> of a position or a force is one
  of 0, 1, 2 (the type \<open>3\<close>). The container is external; its slices are total maps from the
  index, and \<open>list_size\<close> is what \<^verbatim>\<open>size()\<close> returns.
\<close>

record ParticleList =
  Positions :: "nat \<times> 3 \<Rightarrow> real"
  Charges :: "nat \<Rightarrow> real"
  Potentials :: "nat \<Rightarrow> real"
  Forces :: "nat \<times> 3 \<Rightarrow> real"
  list_size :: nat

record System =
  N :: nat
  N_local :: nat
  N_max :: nat
  domain_x :: real
  domain_y :: real
  domain_z :: real
  xvf :: ParticleList

section \<open>Direct Ewald solver\<close>

text \<open>
  The members \<^verbatim>\<open>_alpha\<close>, \<^verbatim>\<open>_r_max\<close>, \<^verbatim>\<open>_eps_r\<close>, \<^verbatim>\<open>_k_max\<close> and \<^verbatim>\<open>neigh_list\<close> of the
  solver. The neighbor list gives each particle the list of its neighbors:
  \<^verbatim>\<open>numNeighbor\<close> is its length and \<^verbatim>\<open>getNeighbor\<close> its entries in order.
\<close>

record ForceEwald =
  ewald_alpha :: real
  ewald_r_max :: real
  ewald_eps_r :: real
  ewald_k_max :: real
  neigh_list :: "nat \<Rightarrow> nat list"

text \<open>
  \<^verbatim>\<open>init_coeff\<close> reads three arguments into local variables and returns. Reading
  \<^verbatim>\<open>args[5]\<close> needs six entries.
\<close>

definition ForceEwald_init_coeff ::
  "(string \<Rightarrow> real) \<Rightarrow> real \<Rightarrow> string list \<Rightarrow> ForceEwald \<Rightarrow> (unit, ForceEwald) outcome" where
  "ForceEwald_init_coeff atof neigh_cut args this =
     (if length args \<le> 5 then Failed OutOfBounds this
      else
        let alpha = atof (args ! 3);
            rmax = atof (args ! 4);
            kmax = atof (args ! 5)
        in Done () this)"

definition init_parameters :: "nat \<Rightarrow> ParticleList \<Rightarrow> ParticleList" where
  "init_parameters idx a =
     a\<lparr>Potentials := (Potentials a)(idx := 0),
       Forces := (Forces a)((idx, 0) := 0, (idx, 1) := 0, (idx, 2) := 0)\<rparr>"

definition ewald_k_int :: "real \<Rightarrow> int" where
  "ewald_k_int k_max = \<lceil>k_max\<rceil> + 1"

definition ewald_n_kvec :: "int \<Rightarrow> int" where
  "ewald_n_kvec k_int = (2 * k_int + 1) * (2 * k_int) * (2 * k_int + 1)"

text \<open>
  \<^verbatim>\<open>U_trigonometric\<close> is a view of \<open>2 * n_kvec\<close> doubles, and the kernels index it without
  a bounds check: an access outside the view reaches the memory next to it and the kernel
  goes on. The memory is a map from the slot (the offset from the start of the view, in
  doubles) to its content; the view is its slots \<open>0 \<le> i < 2 * n_kvec\<close>. The cells outside
  the view are cells of their own: they alias no array of the model.
\<close>

definition atomic_add :: "(int \<Rightarrow> real) \<Rightarrow> int \<Rightarrow> real \<Rightarrow> (int \<Rightarrow> real)" where
  "atomic_add U i v = U(i := U i + v)"

text \<open>The loop that sets the entries of the view to zero.\<close>

definition U_trigonometric_zero :: "nat \<Rightarrow> (int \<Rightarrow> real) \<Rightarrow> (int \<Rightarrow> real)" where
  "U_trigonometric_zero idx U = U(int idx := 0)"

text \<open>The index \<^verbatim>\<open>kidx\<close> and the phase \<^verbatim>\<open>kr\<close> as the partial-sum pass computes them.\<close>

definition partial_sums_kidx :: "int \<Rightarrow> int \<Rightarrow> int \<Rightarrow> int \<Rightarrow> int" where
  "partial_sums_kidx k_int kx ky kz =
     (kz + k_int) * (2 * k_int + 1) * (2 * k_int + 1) * (2 * k_int + 1) +
     (ky + k_int) * (2 * k_int + 1) + (kx + k_int)"

definition partial_sums_kr ::
  "real \<Rightarrow> real \<Rightarrow> real \<Rightarrow> ParticleList \<Rightarrow> nat \<Rightarrow> int \<Rightarrow> int \<Rightarrow> int \<Rightarrow> real" where
  "partial_sums_kr lx ly lz a idx kx ky kz =
     (let kz' = 2 * PI / lz * real_of_int kz;
          ky' = 2 * PI / ly * real_of_int ky;
          kx' = 2 * PI / lx * real_of_int kx
      in kz' * Positions a (idx, 0) + ky' * Positions a (idx, 1) + kz' * Positions a (idx, 2))"

text \<open>The body of the innermost loop of \<^verbatim>\<open>partial_sums\<close> for one wave-vector.\<close>

definition partial_sums_step ::
  "int \<Rightarrow> real \<Rightarrow> real \<Rightarrow> real \<Rightarrow> ParticleList \<Rightarrow> nat \<Rightarrow> int \<Rightarrow> int \<Rightarrow> int \<Rightarrow>
   (int \<Rightarrow> real) \<Rightarrow> (int \<Rightarrow> real)" where
  "partial_sums_step k_int lx ly lz a idx kz ky kx U =
     (if kx = 0 \<and> ky = 0 \<and> kz = 0 then U
      else
        let qi = Charges a idx;
            kidx = partial_sums_kidx k_int kx ky kz;
            kr = partial_sums_kr lx ly lz a idx kx ky kz;
            U1 = atomic_add U (2 * kidx) (qi * cos kr)
        in atomic_add U1 (2 * kidx + 1) (qi * sin kr))"

definition partial_sums ::
  "int \<Rightarrow> real \<Rightarrow> real \<Rightarrow> real \<Rightarrow> ParticleList \<Rightarrow> nat \<Rightarrow> (int \<Rightarrow> real) \<Rightarrow> (int \<Rightarrow> real)" where
  "partial_sums k_int lx ly lz a idx =
     fold (\<lambda>kz.
       fold (\<lambda>ky.
         fold (\<lambda>kx.
           partial_sums_step k_int lx ly lz a idx kz ky kx)
         [- k_int..k_int])
       [- k_int..k_int])
     [- k_int..k_int]"

text \<open>The index \<^verbatim>\<open>kidx\<close> as the force/potential pass computes it.\<close>

definition kspace_potential_kidx :: "int \<Rightarrow> int \<Rightarrow> int \<Rightarrow> int \<Rightarrow> int" where
  "kspace_potential_kidx k_int kx ky kz =
     (kz + k_int) * (2 * k_int + 1) * (2 * k_int + 1) +
     (ky + k_int) * (2 * k_int + 1) + (kx + k_int)"

definition kspace_potential_step ::
  "real \<Rightarrow> int \<Rightarrow> real \<Rightarrow> real \<Rightarrow> real \<Rightarrow> (int \<Rightarrow> real) \<Rightarrow> nat \<Rightarrow> int \<Rightarrow> int \<Rightarrow> int \<Rightarrow>
   ParticleList \<Rightarrow> ParticleList" where
  "kspace_potential_step alpha k_int lx ly lz U idx kz ky kx a =
     (if kx = 0 \<and> ky = 0 \<and> kz = 0 then a
      else
        let coeff = 4 * PI / (lx * ly * lz);
            qi = Charges a idx;
            k2 = 2 * PI / lz * real_of_int kz;
            k1 = 2 * PI / ly * real_of_int ky;
            kidx = kspace_potential_kidx k_int kx ky kz;
            k0 = 2 * PI / lx * real_of_int kx;
            kk = k0 * k0 + k1 * k1 + k2 * k2;
            kr = k0 * Positions a (idx, 0) + k1 * Positions a (idx, 1) + k2 * Positions a (idx, 2);
            k_coeff = exp (- kk / (4 * alpha * alpha)) / kk;
            contrib = coeff * k_coeff *
                      (U (2 * kidx) * U (2 * kidx) + U (2 * kidx + 1) * U (2 * kidx + 1));
            a1 = a\<lparr>Potentials := (Potentials a)(idx := Potentials a idx + contrib)\<rparr>
        in fold (\<lambda>(dim, kd) b.
                   b\<lparr>Forces := (Forces b)((idx, dim) := Forces b (idx, dim) +
                        k_coeff * 2 * qi * kd *
                        (U (2 * kidx + 1) * cos kr - U (2 * kidx) * sin kr))\<rparr>)
             [(0, k0), (1, k1), (2, k2)] a1)"

definition kspace_potential ::
  "real \<Rightarrow> int \<Rightarrow> real \<Rightarrow> real \<Rightarrow> real \<Rightarrow> (int \<Rightarrow> real) \<Rightarrow> nat \<Rightarrow> ParticleList \<Rightarrow> ParticleList" where
  "kspace_potential alpha k_int lx ly lz U idx =
     fold (\<lambda>kz.
       fold (\<lambda>ky.
         fold (\<lambda>kx.
           kspace_potential_step alpha k_int lx ly lz U idx kz ky kx)
         [- k_int..k_int])
       [- k_int..k_int])
     [- k_int..k_int]"

text \<open>
  The real-space kernel. \<open>force_contribs_pair\<close> is the body of the neighbor loop for the
  neighbor \<open>j\<close> of particle \<open>idx\<close>; its two quotients are checked divisions.
\<close>

definition force_contribs_pair ::
  "(real \<Rightarrow> real) \<Rightarrow> real \<Rightarrow> nat \<Rightarrow> nat \<Rightarrow> ParticleList \<Rightarrow> (unit, ParticleList) outcome" where
  "force_contribs_pair erfc alpha idx j a =
     (let rx = Positions a (idx, 0);
          ry = Positions a (idx, 1);
          rz = Positions a (idx, 2);
          qi = Charges a idx;
          dx = Positions a (j, 0) - rx;
          dy = Positions a (j, 1) - ry;
          dz = Positions a (j, 2) - rz;
          d = sqrt (dx * dx + dy * dy + dz * dz);
          qj = Charges a j
      in case cdiv (0.5 * qi * qj * erfc (alpha * d)) d of
           Inl e \<Rightarrow> Failed e a
         | Inr contrib \<Rightarrow>
             let p1 = (Potentials a)(idx := Potentials a idx + contrib);
                 p2 = p1(j := p1 j + contrib);
                 a1 = a\<lparr>Potentials := p2\<rparr>
             in case cdiv (qi * qj * (2 * sqrt (alpha / PI) * exp (- alpha * d * d) +
                            erfc (sqrt alpha * d))) (d * d) of
                  Inl e \<Rightarrow> Failed e a1
                | Inr f_fact \<Rightarrow>
                    let f1 = (Forces a1)((idx, 0) := Forces a1 (idx, 0) + f_fact * dx);
                        f2 = f1((idx, 1) := f1 (idx, 1) + f_fact * dy);
                        f3 = f2((idx, 2) := f2 (idx, 2) + f_fact * dz);
                        f4 = f3((j, 0) := f3 (j, 0) + - f_fact * dx);
                        f5 = f4((j, 1) := f4 (j, 1) + - f_fact * dy);
                        f6 = f5((j, 2) := f5 (j, 2) + - f_fact * dz)
                    in Done () (a1\<lparr>Forces := f6\<rparr>))"

definition force_contribs ::
  "(real \<Rightarrow> real) \<Rightarrow> real \<Rightarrow> (nat \<Rightarrow> nat list) \<Rightarrow> nat \<Rightarrow> ParticleList \<Rightarrow>
   (unit, ParticleList) outcome" where
  "force_contribs erfc alpha neigh idx = foreach (neigh idx) (force_contribs_pair erfc alpha idx)"

definition calc_Uself :: "real \<Rightarrow> nat \<Rightarrow> ParticleList \<Rightarrow> ParticleList" where
  "calc_Uself alpha idx a =
     a\<lparr>Potentials := (Potentials a)(idx := Potentials a idx +
          - alpha / PI_SQRT * Charges a idx * Charges a idx)\<rparr>"

text \<open>
  \<^verbatim>\<open>ForceEwald::compute\<close>. The state is the system; the solver is only read. \<open>heap\<close> is the
  content of the memory where the view \<^verbatim>\<open>U_trigonometric\<close> is allocated, and
  \<open>MPI_Allreduce n U\<close> is the memory after the all-reduce of the first \<open>n\<close> entries of the
  view. The function first runs \<^verbatim>\<open>init_parameters\<close> over the resident particles;
  \<open>ForceEwald_accumulate\<close> is everything after that loop.
\<close>

definition ForceEwald_accumulate ::
  "(real \<Rightarrow> real) \<Rightarrow> (nat \<Rightarrow> (int \<Rightarrow> real) \<Rightarrow> (int \<Rightarrow> real)) \<Rightarrow> (int \<Rightarrow> real) \<Rightarrow>
   ForceEwald \<Rightarrow> System \<Rightarrow> (unit, System) outcome" where
  "ForceEwald_accumulate erfc MPI_Allreduce heap this system =
     (let n_local = N_local system;
          n_max = N_max system;
          alpha = ewald_alpha this;
          k_max = ewald_k_max this;
          a0 = xvf system;
          k_int = ewald_k_int k_max;
          n_kvec = ewald_n_kvec k_int;
          U0 = fold U_trigonometric_zero [0..<nat (2 * n_kvec)] heap;
          lx = domain_x system;
          ly = domain_y system;
          lz = domain_z system;
          U1 = fold (partial_sums k_int lx ly lz a0) [0..<n_max] U0;
          U2 = MPI_Allreduce (nat (2 * n_kvec)) U1;
          a1 = fold (kspace_potential alpha k_int lx ly lz U2) [0..<n_max] a0
      in case foreach [0..<n_local] (force_contribs erfc alpha (neigh_list this)) a1 of
           Failed e a \<Rightarrow> Failed e (system\<lparr>xvf := a\<rparr>)
         | Done u a2 \<Rightarrow>
             if n_max \<noteq> n_local then Failed AssertionFailed (system\<lparr>xvf := a2\<rparr>)
             else Done () (system\<lparr>xvf := fold (calc_Uself alpha) [0..<n_max] a2\<rparr>))"

definition ForceEwald_compute ::
  "(real \<Rightarrow> real) \<Rightarrow> (nat \<Rightarrow> (int \<Rightarrow> real) \<Rightarrow> (int \<Rightarrow> real)) \<Rightarrow> (int \<Rightarrow> real) \<Rightarrow>
   ForceEwald \<Rightarrow> System \<Rightarrow> (unit, System) outcome" where
  "ForceEwald_compute erfc MPI_Allreduce heap this system =
     ForceEwald_accumulate erfc MPI_Allreduce heap this
       (system\<lparr>xvf := fold init_parameters [0..<N_max system] (xvf system)\<rparr>)"

section \<open>Cubic B-spline weights of the mesh solver\<close>

definition oneDspline :: "real \<Rightarrow> real" where
  "oneDspline x =
     (if 0 \<le> x \<and> x < 1 then (1 / 6) * x * x * x
      else if 1 \<le> x \<and> x \<le> 2 then - (1 / 2) * x * x * x + 2 * x * x - 2 * x + (2 / 3)
      else 0)"

definition oneDsplinederiv :: "real \<Rightarrow> real" where
  "oneDsplinederiv origx =
     (let x = 2 - \<bar>origx\<bar>;
          forcedir = (if origx < 0 then - 1 else 1)
      in if 0 \<le> x \<and> x < 1 then (1 / 2) * x * x * forcedir
         else if 1 \<le> x \<and> x \<le> 2 then (- (3 / 2) * x * x + 4 * x - 2) * forcedir
         else 0)"


section \<open>Smooth particle mesh Ewald solver\<close>

text \<open>
  The members of the solver: \<^verbatim>\<open>_alpha\<close>, \<^verbatim>\<open>_r_max\<close>, \<^verbatim>\<open>_k_max\<close>, \<^verbatim>\<open>_eps_r\<close>, and the names
  \<^verbatim>\<open>lx\<close>, \<^verbatim>\<open>ly\<close>, \<^verbatim>\<open>lz\<close> and \<^verbatim>\<open>Udip\<close> that \<^verbatim>\<open>tune\<close> and \<^verbatim>\<open>compute\<close> read without declaring them.
\<close>

record ForceSPME =
  spme_alpha :: real
  spme_r_max :: real
  spme_k_max :: real
  spme_eps_r :: real
  spme_lx :: real
  spme_ly :: real
  spme_lz :: real
  spme_Udip :: real

definition ForceSPME_tune :: "real \<Rightarrow> System \<Rightarrow> ForceSPME \<Rightarrow> (unit, ForceSPME) outcome" where
  "ForceSPME_tune accuracy system this =
     (if domain_x system \<noteq> domain_y system \<or> domain_x system \<noteq> domain_z system
      then Failed ConfigError this
      else
        let n = real (N system);
            lx = spme_lx this;
            EXECUTION_TIME_RATIO_K_R = 2;
            p = - ln accuracy;
            this1 = this\<lparr>spme_alpha :=
                      EXECUTION_TIME_RATIO_K_R powr (1 / 6) * sqrt (p / PI) * n powr (1 / 6) / lx\<rparr>;
            this2 = this1\<lparr>spme_k_max :=
                      EXECUTION_TIME_RATIO_K_R powr (1 / 6) * sqrt (p / PI) * n powr (1 / 6) / lx *
                      2 * PI\<rparr>;
            this3 = this2\<lparr>spme_r_max :=
                      EXECUTION_TIME_RATIO_K_R powr (1 / 6) * sqrt (p / PI) / n powr (1 / 6) * lx\<rparr>;
            this4 = this3\<lparr>spme_alpha := sqrt p / spme_r_max this3\<rparr>;
            this5 = this4\<lparr>spme_k_max := 2 * sqrt p * spme_alpha this4\<rparr>
        in Done () this5)"

definition oneDeuler :: "int \<Rightarrow> int \<Rightarrow> real" where
  "oneDeuler k meshwidth =
     (let denomreal = fold (\<lambda>l acc. acc + oneDspline (min (4 - (real l + 1)) (real l + 1)) *
                        cos (2 * PI * real_of_int k * real l / real_of_int meshwidth)) [0..<3] 0;
          denomimag = fold (\<lambda>l acc. acc + oneDspline (min (4 - (real l + 1)) (real l + 1)) *
                        sin (2 * PI * real_of_int k * real l / real_of_int meshwidth)) [0..<3] 0;
          numreal = cos (2 * PI * 3 * real_of_int k / real_of_int meshwidth);
          numimag = sin (2 * PI * 3 * real_of_int k / real_of_int meshwidth)
      in (numreal * numreal + numimag * numimag) / (denomreal * denomreal + denomimag * denomimag))"

text \<open>
  What \<^verbatim>\<open>TPME::compute\<close> takes from outside the file: the complementary error function, the
  two transforms of the FFT backend (host branch), the initial content of the buffers
  \<^verbatim>\<open>BC\<close> and \<^verbatim>\<open>Qr\<close>, the way the runtime splits a \<^verbatim>\<open>parallel_reduce\<close> range among workers, and the names
  \<^verbatim>\<open>r\<close> and \<^verbatim>\<open>particles\<close> that its kernels use without declaring them.
\<close>

record tpme_env =
  env_erfc :: "real \<Rightarrow> real"
  env_r :: "nat \<times> 3 \<Rightarrow> real"
  env_particles_size :: nat
  env_fft_backward :: "nat \<Rightarrow> (nat \<Rightarrow> complex) \<Rightarrow> (nat \<Rightarrow> complex)"
  env_fft_forward :: "nat \<Rightarrow> (nat \<Rightarrow> complex) \<Rightarrow> (nat \<Rightarrow> complex)"
  env_BC_alloc :: "nat \<Rightarrow> complex"
  env_Qr_alloc :: "nat \<Rightarrow> complex"
  env_schedule :: "nat \<Rightarrow> nat list list"

definition init_p :: "nat \<Rightarrow> ParticleList \<Rightarrow> ParticleList" where
  "init_p idx a =
     a\<lparr>Potentials := (Potentials a)(idx := 0),
       Forces := (Forces a)((idx, 0) := 0, (idx, 1) := 0, (idx, 2) := 0)\<rparr>"

text \<open>
  The real-space all-pairs loop. \<open>real_space_pair\<close> is the body of the innermost loop, for
  the image \<open>(px, py, pz)\<close> of particle \<open>j\<close>; its state is the particle container and the
  accumulator \<^verbatim>\<open>Ur_j\<close>. \<open>real_space_contrib\<close> and \<open>real_space_f_fact\<close> are the expressions
  for \<^verbatim>\<open>contrib\<close> and \<^verbatim>\<open>f_fact\<close>; their quotients by the pair distance are checked
  divisions, and a comparison used as a factor is 1 when it holds and 0 otherwise.
\<close>

definition real_space_contrib ::
  "(real \<Rightarrow> real) \<Rightarrow> real \<Rightarrow> real \<Rightarrow> real \<Rightarrow> real \<Rightarrow> real \<Rightarrow> error + real" where
  "real_space_contrib erfc alpha r_max qi qj d =
     (if d \<le> r_max \<and> \<bar>d\<bar> \<ge> 1 / 10 ^ 12
      then cdiv (0.5 * qi * qj * erfc (alpha * d)) d
      else Inr 0)"

definition real_space_f_fact ::
  "(real \<Rightarrow> real) \<Rightarrow> real \<Rightarrow> real \<Rightarrow> real \<Rightarrow> real \<Rightarrow> real \<Rightarrow> error + real" where
  "real_space_f_fact erfc alpha r_max qi qj d =
     cdiv (of_bool (d \<le> r_max \<and> \<bar>d\<bar> \<ge> 1 / 10 ^ 12) * qi * qj *
             (2 * sqrt (alpha / PI) * exp (- alpha * d * d) + erfc (sqrt alpha * d)))
          (d * d + of_bool (\<bar>d\<bar> \<le> 1 / 10 ^ 12))"

definition real_space_pair ::
  "tpme_env \<Rightarrow> ForceSPME \<Rightarrow> nat \<Rightarrow> nat \<Rightarrow> int \<Rightarrow> int \<Rightarrow> int \<Rightarrow> ParticleList \<times> real \<Rightarrow>
   (unit, ParticleList \<times> real) outcome" where
  "real_space_pair env this i j pz py px st =
     (let a = fst st;
          Ur_j = snd st;
          alpha = spme_alpha this;
          r_max = spme_r_max this;
          dx = env_r env (i, 0) - (env_r env (j, 0) + real_of_int px * spme_lx this);
          dy = env_r env (i, 1) - (env_r env (j, 1) + real_of_int py * spme_ly this);
          dz = env_r env (i, 2) - (env_r env (j, 2) + real_of_int pz * spme_lz this);
          d = sqrt (dx * dx + dy * dy + dz * dz)
      in case real_space_contrib (env_erfc env) alpha r_max (Charges a i) (Charges a j) d of
           Inl e \<Rightarrow> Failed e st
         | Inr contrib \<Rightarrow>
             (case real_space_f_fact (env_erfc env) alpha r_max (Charges a i) (Charges a j) d of
                Inl e \<Rightarrow> Failed e st
              | Inr f_fact \<Rightarrow>
                  let f1 = (Forces a)((i, 0) := Forces a (i, 0) + f_fact * dx);
                      f2 = f1((i, 1) := f1 (i, 1) + f_fact * dy);
                      f3 = f2((i, 2) := f2 (i, 2) + f_fact * dz)
                  in Done () (a\<lparr>Forces := f3\<rparr>, Ur_j + contrib)))"

definition real_space_team ::
  "tpme_env \<Rightarrow> ForceSPME \<Rightarrow> nat \<Rightarrow> nat \<Rightarrow> ParticleList \<times> real \<Rightarrow>
   (unit, ParticleList \<times> real) outcome" where
  "real_space_team env this n_max i st =
     (if i < n_max then
        let per_shells = \<lceil>spme_r_max this / spme_lx this\<rceil>
        in case foreach [0..<n_max] (\<lambda>j.
                  foreach [- per_shells..per_shells] (\<lambda>pz.
                    foreach [- per_shells..per_shells] (\<lambda>py.
                      foreach [- per_shells..per_shells] (\<lambda>px.
                        real_space_pair env this i j pz py px)))) (fst st, 0) of
             Failed e st' \<Rightarrow> Failed e (fst st', snd st)
           | Done u st' \<Rightarrow>
               let a = fst st';
                   Ur_inner = snd st'
               in Done () (a\<lparr>Potentials := (Potentials a)(i := Potentials a i + Ur_inner)\<rparr>,
                           snd st + Ur_inner)
      else Done () st)"

text \<open>Charge spreading: the per-axis distance, and the kernel for one mesh point.\<close>

definition spread_dist :: "real \<Rightarrow> real \<Rightarrow> real" where
  "spread_dist m r = min (min \<bar>m - r\<bar> \<bar>m - (r + 1)\<bar>) \<bar>m - (r - 1)\<bar>"

definition spread_q :: "tpme_env \<Rightarrow> ParticleList \<Rightarrow> real \<Rightarrow> nat \<Rightarrow> ParticleList \<Rightarrow> ParticleList" where
  "spread_q env a spacing idx mesh =
     fold (\<lambda>pidx m.
       let xdist = spread_dist (Positions m (idx, 0)) (env_r env (pidx, 0));
           ydist = spread_dist (Positions m (idx, 1)) (env_r env (pidx, 1));
           zdist = spread_dist (Positions m (idx, 2)) (env_r env (pidx, 2))
       in if xdist \<le> 2 * spacing \<and> ydist \<le> 2 * spacing \<and> zdist \<le> 2 * spacing
          then m\<lparr>Charges := (Charges m)(idx := Charges m idx +
                   Charges a pidx *
                   oneDspline (2 - xdist / spacing) *
                   oneDspline (2 - ydist / spacing) *
                   oneDspline (2 - zdist / spacing))\<rparr>
          else m)
       [0..<env_particles_size env] mesh"

text \<open>The structure-factor array, one call of \<^verbatim>\<open>BC_functor\<close> per \<open>kx\<close>.\<close>

definition BC_shift :: "int \<Rightarrow> int \<Rightarrow> int" where
  "BC_shift k meshwidth = (if real_of_int k > real_of_int meshwidth / 2 then k - meshwidth else k)"

definition BC_functor ::
  "ForceSPME \<Rightarrow> int \<Rightarrow> nat \<Rightarrow> (nat \<Rightarrow> complex) \<Rightarrow> (nat \<Rightarrow> complex)" where
  "BC_functor this meshwidth kx =
     fold (\<lambda>ky. fold (\<lambda>kz bc.
       let idx = int kx + (int ky * meshwidth) + (int kz * meshwidth * meshwidth)
       in if int kx + int ky + int kz > 0 then
            let mx = BC_shift (int kx) meshwidth;
                my = BC_shift (int ky) meshwidth;
                mz = BC_shift (int kz) meshwidth;
                m2 = real_of_int (mx * mx + my * my + mz * mz)
            in bc(nat idx := Complex
                 (oneDeuler (int kx) meshwidth * oneDeuler (int ky) meshwidth *
                  oneDeuler (int kz) meshwidth *
                  exp (- PI * PI * m2 / (spme_alpha this * spme_alpha this)) /
                  (PI * spme_lx this * spme_ly this * spme_lz this * m2)) 0)
          else bc(nat idx := Complex 0 0))
       [0..<nat meshwidth]) [0..<nat meshwidth]"

definition copy_charge :: "ParticleList \<Rightarrow> nat \<Rightarrow> (nat \<Rightarrow> complex) \<Rightarrow> (nat \<Rightarrow> complex)" where
  "copy_charge mesh idx qr = qr(idx := Complex (Charges mesh idx) 0)"

definition Uk_reduce :: "(nat \<Rightarrow> complex) \<Rightarrow> (nat \<Rightarrow> complex) \<Rightarrow> nat \<Rightarrow> real \<Rightarrow> real" where
  "Uk_reduce bc qk idx Uk_part =
     Uk_part + Re (bc idx) * ((Re (qk idx) * Re (qk idx)) + (Im (qk idx) * Im (qk idx)))"

definition update_q :: "(nat \<Rightarrow> complex) \<Rightarrow> nat \<Rightarrow> (nat \<Rightarrow> complex) \<Rightarrow> (nat \<Rightarrow> complex)" where
  "update_q bc idx qk = qk(idx := Complex (Re (qk idx) * Re (bc idx)) (Im (qk idx) * Re (bc idx)))"

text \<open>
  The self-energy \<^verbatim>\<open>parallel_reduce\<close>. Each worker owns an accumulator \<^verbatim>\<open>Uself_part\<close> that
  starts at zero and runs the body over its share of the range; the reduction adds the
  workers' accumulators. \<open>self_energy_body\<close> is the body, \<open>self_energy_reduce\<close> the reduction
  over the shares that the schedule gives.
\<close>

definition self_energy_body :: "real \<Rightarrow> nat \<Rightarrow> real \<times> ParticleList \<Rightarrow> real \<times> ParticleList" where
  "self_energy_body alpha idx st =
     (let a = snd st;
          Uself_part = fst st + - alpha / PI_SQRT * Charges a idx * Charges a idx
      in (Uself_part, a\<lparr>Potentials := (Potentials a)(idx := Potentials a idx + Uself_part)\<rparr>))"

definition self_energy_reduce ::
  "real \<Rightarrow> nat list list \<Rightarrow> ParticleList \<Rightarrow> real \<times> ParticleList" where
  "self_energy_reduce alpha shares a =
     fold (\<lambda>share st.
            let w = fold (self_energy_body alpha) share (0, snd st)
            in (fst st + fst w, snd w))
       shares (0, a)"

text \<open>Force gathering: the per-axis signed distance, and the kernel for one particle.\<close>

definition gather_dist :: "real \<Rightarrow> real \<Rightarrow> real" where
  "gather_dist r m =
     (let closestpart = r;
          dist = closestpart - m;
          closestpart = (if \<bar>dist\<bar> > \<bar>m - (r + 1)\<bar> then r + 1 else closestpart);
          closestpart = (if \<bar>dist\<bar> > \<bar>m - (r - 1)\<bar> then r - 1 else closestpart)
      in closestpart - m)"

definition gather_f ::
  "tpme_env \<Rightarrow> ParticleList \<Rightarrow> real \<Rightarrow> nat \<Rightarrow> (nat \<Rightarrow> complex) \<Rightarrow> nat \<Rightarrow> ParticleList \<Rightarrow> ParticleList" where
  "gather_f env mesh spacing meshsize qk pidx =
     fold (\<lambda>idx a.
       let xdist = gather_dist (env_r env (pidx, 0)) (Positions mesh (idx, 0));
           ydist = gather_dist (env_r env (pidx, 1)) (Positions mesh (idx, 1));
           zdist = gather_dist (env_r env (pidx, 2)) (Positions mesh (idx, 2))
       in if \<bar>xdist\<bar> \<le> 2 * spacing \<and> \<bar>ydist\<bar> \<le> 2 * spacing \<and> \<bar>zdist\<bar> \<le> 2 * spacing
          then
            let f1 = (Forces a)((pidx, 0) := Forces a (pidx, 0) +
                       Charges a pidx * oneDsplinederiv (xdist / spacing) *
                       oneDspline (2 - (\<bar>ydist\<bar> / spacing)) *
                       oneDspline (2 - (\<bar>zdist\<bar> / spacing)) * Re (qk idx));
                f2 = f1((pidx, 1) := f1 (pidx, 1) +
                       Charges a pidx * oneDspline (2 - (\<bar>xdist\<bar> / spacing)) *
                       oneDsplinederiv (ydist / spacing) *
                       oneDspline (2 - (\<bar>zdist\<bar> / spacing)) * Re (qk idx));
                f3 = f2((pidx, 2) := f2 (pidx, 2) +
                       Charges a pidx * oneDspline (2 - (\<bar>xdist\<bar> / spacing)) *
                       oneDspline (2 - (\<bar>ydist\<bar> / spacing)) *
                       oneDsplinederiv (zdist / spacing) * Re (qk idx))
            in a\<lparr>Forces := f3\<rparr>
          else a)
       [0..<meshsize]"

text \<open>
  \<^verbatim>\<open>TPME::compute\<close> (host FFT branch). The state is the system and the mesh; the value is
  the total energy. After the check of the domain the function runs \<^verbatim>\<open>init_p\<close> over the
  particles; \<open>TPME_accumulate\<close> is everything after that loop. The line that \<^verbatim>\<open>gather_f\<close>
  prints for particle 0 is left out.
\<close>

definition TPME_accumulate ::
  "tpme_env \<Rightarrow> ForceSPME \<Rightarrow> System \<times> ParticleList \<Rightarrow> (real, System \<times> ParticleList) outcome" where
  "TPME_accumulate env this st =
     (let system = fst st;
          mesh = snd st;
          n_max = N system;
          meshsize = list_size mesh;
          a0 = xvf system;
          alpha = spme_alpha this
      in case foreach [0..<n_max] (real_space_team env this n_max) (a0, 0) of
           Failed e rs \<Rightarrow> Failed e (system\<lparr>xvf := fst rs\<rparr>, mesh)
         | Done u rs \<Rightarrow>
             let a1 = fst rs;
                 Ur = snd rs;
                 spacing = Positions mesh (1, 0) - Positions mesh (0, 0);
                 mesh1 = fold (spread_q env a1 spacing) [0..<meshsize] mesh;
                 meshwidth = round (real meshsize powr (1 / 3));
                 bc = fold (BC_functor this meshwidth) [0..<nat meshwidth] (env_BC_alloc env);
                 qr = fold (copy_charge mesh1) [0..<meshsize] (env_Qr_alloc env);
                 qk = env_fft_backward env (nat meshwidth) qr;
                 Uk = fold (Uk_reduce bc qk) [0..<meshsize] 0;
                 qk1 = fold (update_q bc) [0..<n_max] qk;
                 qk2 = env_fft_forward env (nat meshwidth) qk1;
                 Uk' = Uk * 0.5;
                 se = self_energy_reduce alpha (env_schedule env n_max) a1;
                 Uself = fst se;
                 a2 = snd se;
                 total_energy = Ur + Uk' + Uself + spme_Udip this;
                 a3 = fold (gather_f env mesh1 spacing meshsize qk2) [0..<n_max] a2
             in Done total_energy (system\<lparr>xvf := a3\<rparr>, mesh1))"

definition TPME_compute ::
  "tpme_env \<Rightarrow> ForceSPME \<Rightarrow> System \<times> ParticleList \<Rightarrow> (real, System \<times> ParticleList) outcome" where
  "TPME_compute env this st =
     (let system = fst st;
          mesh = snd st
      in if domain_x system \<noteq> domain_y system \<or> domain_x system \<noteq> domain_z system
         then Failed ConfigError st
         else TPME_accumulate env this
                (system\<lparr>xvf := fold init_p [0..<N system] (xvf system)\<rparr>, mesh))"

section \<open>Quantities the claims are stated with\<close>

text \<open>
  The weight that \<^verbatim>\<open>spread_q\<close> and \<^verbatim>\<open>gather_f\<close> give to a mesh point at the signed distance
  \<open>u\<close> (in mesh spacings) from a particle: \<^verbatim>\<open>oneDspline( 2.0 - std::abs( u ) )\<close>.
\<close>

definition spread_weight :: "real \<Rightarrow> real" where
  "spread_weight u = oneDspline (2 - \<bar>u\<bar>)"

definition total_mesh_charge :: "ParticleList \<Rightarrow> real" where
  "total_mesh_charge mesh = sum_list (map (Charges mesh) [0..<list_size mesh])"

text \<open>
  The pair potential \<open>qi qj erfc(\<alpha> d) / d\<close> and the magnitude of its negative gradient in
  the separation \<open>d\<close>, for a function \<open>erfc\<close> with derivative \<open>- 2 / \<surd>\<pi> exp(- x\<^sup>2)\<close>.
\<close>

definition screened_coulomb :: "(real \<Rightarrow> real) \<Rightarrow> real \<Rightarrow> real \<Rightarrow> real \<Rightarrow> real \<Rightarrow> real" where
  "screened_coulomb erfc alpha qi qj d = qi * qj * erfc (alpha * d) / d"

definition screened_coulomb_force :: "(real \<Rightarrow> real) \<Rightarrow> real \<Rightarrow> real \<Rightarrow> real \<Rightarrow> real \<Rightarrow> real" where
  "screened_coulomb_force erfc alpha qi qj d =
     qi * qj * (2 * alpha / sqrt pi * exp (- ((alpha * d) ^ 2)) / d + erfc (alpha * d) / d ^ 2)"

text \<open>
  The container with the potential and the three force components of every index below
  \<open>n\<close> set to zero. Two containers with the same \<open>zero_below n\<close> differ at most in these
  values.
\<close>

definition zero_below :: "nat \<Rightarrow> ParticleList \<Rightarrow> ParticleList" where
  "zero_below n a =
     a\<lparr>Potentials := (\<lambda>i. if i < n then 0 else Potentials a i),
       Forces := (\<lambda>(i, d). if i < n then 0 else Forces a (i, d))\<rparr>"

section \<open>Concrete configurations\<close>

text \<open>
  The complementary error function by its Maclaurin series, the all-reduce of a run with a
  single process, and a memory that holds zero in every cell.
\<close>

definition libm_erfc :: "real \<Rightarrow> real" where
  "libm_erfc x = 1 - 2 / sqrt pi * (\<Sum>n. (- 1) ^ n * x ^ (2 * n + 1) / (fact n * real (2 * n + 1)))"

definition single_rank_allreduce :: "nat \<Rightarrow> (int \<Rightarrow> real) \<Rightarrow> (int \<Rightarrow> real)" where
  "single_rank_allreduce n U = U"

definition zero_memory :: "int \<Rightarrow> real" where
  "zero_memory i = 0"

text \<open>One unit charge at \<open>(1/2, 0, 0)\<close>.\<close>

definition particle_at_half :: ParticleList where
  "particle_at_half =
     \<lparr>Positions = (\<lambda>(idx, d). if d = 0 then 1 / 2 else 0), Charges = (\<lambda>idx. 1),
      Potentials = (\<lambda>idx. 0), Forces = (\<lambda>c. 0), list_size = 1\<rparr>"

text \<open>Two unit charges, particle 0 at the origin and particle 1 at \<open>(2, 0, 0)\<close>.\<close>

definition pair_apart :: ParticleList where
  "pair_apart =
     \<lparr>Positions = (\<lambda>(idx, d). if idx = 1 \<and> d = 0 then 2 else 0), Charges = (\<lambda>idx. 1),
      Potentials = (\<lambda>idx. 0), Forces = (\<lambda>c. 0), list_size = 2\<rparr>"

text \<open>Two unit charges at the same position.\<close>

definition pair_coincident :: ParticleList where
  "pair_coincident =
     \<lparr>Positions = (\<lambda>c. 0), Charges = (\<lambda>idx. 1),
      Potentials = (\<lambda>idx. 0), Forces = (\<lambda>c. 0), list_size = 2\<rparr>"

text \<open>
  A \<open>4 \<times> 4 \<times> 4\<close> mesh of spacing 1 on the cubic domain of edge 4 (the x index runs
  fastest), empty of charge, and one unit charge at \<open>(3/2, 3/2, 3/2)\<close>: on each axis the
  four mesh points at distances \<open>3/2, 1/2, 1/2, 3/2\<close> are all the points within two spacings
  of the particle, none of them through the periodic boundary.
\<close>

definition mesh4 :: ParticleList where
  "mesh4 =
     \<lparr>Positions = (\<lambda>(idx, d). if d = 0 then real (idx mod 4)
                     else if d = 1 then real ((idx div 4) mod 4) else real (idx div 16)),
      Charges = (\<lambda>idx. 0), Potentials = (\<lambda>idx. 0), Forces = (\<lambda>c. 0), list_size = 64\<rparr>"

definition particle_mid :: ParticleList where
  "particle_mid =
     \<lparr>Positions = (\<lambda>c. 3 / 2), Charges = (\<lambda>idx. 1),
      Potentials = (\<lambda>idx. 0), Forces = (\<lambda>c. 0), list_size = 1\<rparr>"

text \<open>
  An environment for that particle on one worker. Its transforms are placeholders: the
  statements that use this environment do not depend on them.
\<close>

definition mid_env :: tpme_env where
  "mid_env =
     \<lparr>env_erfc = libm_erfc, env_r = Positions particle_mid, env_particles_size = 1,
      env_fft_backward = (\<lambda>n a. a), env_fft_forward = (\<lambda>n a. a),
      env_BC_alloc = (\<lambda>idx. 0), env_Qr_alloc = (\<lambda>idx. 0),
      env_schedule = (\<lambda>n. [[0..<n]])\<rparr>"

definition cubic_system :: System where
  "cubic_system =
     \<lparr>N = 2, N_local = 2, N_max = 2, domain_x = 4, domain_y = 4, domain_z = 4,
      xvf = pair_apart\<rparr>"

definition slab_system :: System where
  "slab_system =
     \<lparr>N = 2, N_local = 2, N_max = 2, domain_x = 4, domain_y = 8, domain_z = 8,
      xvf = pair_apart\<rparr>"

definition spme_solver :: ForceSPME where
  "spme_solver =
     \<lparr>spme_alpha = 1, spme_r_max = 1, spme_k_max = 1, spme_eps_r = 1,
      spme_lx = 4, spme_ly = 4, spme_lz = 4, spme_Udip = 0\<rparr>"

definition ewald_solver :: ForceEwald where
  "ewald_solver =
     \<lparr>ewald_alpha = 1, ewald_r_max = 1, ewald_eps_r = 1, ewald_k_max = 1,
      neigh_list = (\<lambda>idx. if idx = 0 then [1] else [])\<rparr>"

text \<open>
  A solver whose \<^verbatim>\<open>lx\<close> holds 1, used with the system of edge 4.
\<close>

definition stray_lx_solver :: ForceSPME where
  "stray_lx_solver =
     \<lparr>spme_alpha = 1, spme_r_max = 1, spme_k_max = 1, spme_eps_r = 1,
      spme_lx = 1, spme_ly = 4, spme_lz = 4, spme_Udip = 0\<rparr>"

text \<open>
  Values left in the potential and force slices of the two particles by an earlier call,
  and the container of the two unit charges with these values.
\<close>

definition stale_potentials :: "nat \<Rightarrow> real" where
  "stale_potentials idx = (if idx < 2 then 5 else 0)"

definition stale_forces :: "nat \<times> 3 \<Rightarrow> real" where
  "stale_forces c = (if fst c < 2 then 7 else 0)"

definition pair_apart_stale :: ParticleList where
  "pair_apart_stale = pair_apart\<lparr>Potentials := stale_potentials, Forces := stale_forces\<rparr>"

text \<open>
  Two resident particles of which the second is a ghost: \<open>N = N_local = 1\<close> and
  \<open>N_max = 2\<close>, on the cubic domain of edge 4, once with the stale values and once with zero
  potentials and forces.
\<close>

definition ghost_system_stale :: System where
  "ghost_system_stale =
     \<lparr>N = 1, N_local = 1, N_max = 2, domain_x = 4, domain_y = 4, domain_z = 4,
      xvf = pair_apart_stale\<rparr>"

definition ghost_system_clean :: System where
  "ghost_system_clean =
     \<lparr>N = 1, N_local = 1, N_max = 2, domain_x = 4, domain_y = 4, domain_z = 4,
      xvf = pair_apart\<rparr>"

section \<open>Auxiliary facts\<close>

lemma sqrt_four: "sqrt 4 = 2"
  using real_sqrt_abs[of 2] by simp

lemma axis_cases: "(d::3) = 0 \<or> d = 1 \<or> d = 2"
proof (induct d)
  case (of_int z)
  then have "z = 0 \<or> z = 1 \<or> z = 2" by auto
  then show ?case by auto
qed

text \<open>
  A function that agrees with \<open>g\<close> to the left of a point and with \<open>h\<close> to the right of it
  has the derivative that \<open>g\<close> and \<open>h\<close> share there.
\<close>

lemma DERIV_glue:
  fixes f g h :: "real \<Rightarrow> real"
  assumes ab: "a < u" "u < b"
    and L: "\<And>v. a < v \<Longrightarrow> v \<le> u \<Longrightarrow> f v = g v"
    and R: "\<And>v. u \<le> v \<Longrightarrow> v < b \<Longrightarrow> f v = h v"
    and dg: "(g has_real_derivative D) (at u)"
    and dh: "(h has_real_derivative D) (at u)"
  shows "(f has_real_derivative D) (at u)"
proof -
  have fu: "f u = g u" "f u = h u" using L[of u] R[of u] ab by auto
  have gl: "((\<lambda>y. (g y - g u) / (y - u)) \<longlongrightarrow> D) (at_left u)"
    using dg unfolding has_field_derivative_iff filterlim_at_split by simp
  have hr: "((\<lambda>y. (h y - h u) / (y - u)) \<longlongrightarrow> D) (at_right u)"
    using dh unfolding has_field_derivative_iff filterlim_at_split by simp
  have evl: "eventually (\<lambda>y. (g y - g u) / (y - u) = (f y - f u) / (y - u)) (at_left u)"
    unfolding eventually_at_left[OF ab(1)] using L fu ab by (intro exI[of _ a]) auto
  have evr: "eventually (\<lambda>y. (h y - h u) / (y - u) = (f y - f u) / (y - u)) (at_right u)"
    unfolding eventually_at_right[OF ab(2)] using R fu ab by (intro exI[of _ b]) auto
  have "((\<lambda>y. (f y - f u) / (y - u)) \<longlongrightarrow> D) (at_left u)"
    using Lim_transform_eventually[OF gl evl] .
  moreover have "((\<lambda>y. (f y - f u) / (y - u)) \<longlongrightarrow> D) (at_right u)"
    using Lim_transform_eventually[OF hr evr] .
  ultimately show ?thesis
    unfolding has_field_derivative_iff filterlim_at_split by simp
qed

section \<open>The spline weight and its derivative\<close>

lemma W_far: "2 \<le> \<bar>v\<bar> \<Longrightarrow> spread_weight v = 0"
  by (simp add: spread_weight_def oneDspline_def)

lemma W_outer_pos: "1 \<le> v \<Longrightarrow> v \<le> 2 \<Longrightarrow> spread_weight v = (2 - v) ^ 3 / 6"
  by (cases "v = 1")
     (auto simp: spread_weight_def oneDspline_def power3_eq_cube power2_eq_square field_simps)

lemma W_inner_pos: "0 \<le> v \<Longrightarrow> v \<le> 1 \<Longrightarrow> spread_weight v = 2 / 3 - v ^ 2 + v ^ 3 / 2"
  by (auto simp: spread_weight_def oneDspline_def power3_eq_cube power2_eq_square field_simps)

lemma W_inner_neg: "- 1 \<le> v \<Longrightarrow> v \<le> 0 \<Longrightarrow> spread_weight v = 2 / 3 - v ^ 2 - v ^ 3 / 2"
  by (auto simp: spread_weight_def oneDspline_def power3_eq_cube power2_eq_square field_simps)

lemma W_outer_neg: "- 2 \<le> v \<Longrightarrow> v \<le> - 1 \<Longrightarrow> spread_weight v = (2 + v) ^ 3 / 6"
  by (cases "v = - 1")
     (auto simp: spread_weight_def oneDspline_def power3_eq_cube power2_eq_square field_simps)

lemma D_outer_pos:
  "((\<lambda>v::real. (2 - v) ^ 3 / 6) has_real_derivative - ((2 - u) ^ 2 / 2)) (at u)"
  by (auto intro!: derivative_eq_intros simp: power2_eq_square)

lemma D_inner_pos:
  "((\<lambda>v::real. 2 / 3 - v ^ 2 + v ^ 3 / 2) has_real_derivative (- 2 * u + 3 * u ^ 2 / 2)) (at u)"
  by (auto intro!: derivative_eq_intros simp: power2_eq_square)

lemma D_inner_neg:
  "((\<lambda>v::real. 2 / 3 - v ^ 2 - v ^ 3 / 2) has_real_derivative (- 2 * u - 3 * u ^ 2 / 2)) (at u)"
  by (auto intro!: derivative_eq_intros simp: power2_eq_square)

lemma D_outer_neg:
  "((\<lambda>v::real. (2 + v) ^ 3 / 6) has_real_derivative ((2 + u) ^ 2 / 2)) (at u)"
  by (auto intro!: derivative_eq_intros simp: power2_eq_square)

lemma deriv_outer_pos: "1 < u \<Longrightarrow> u \<le> 2 \<Longrightarrow> oneDsplinederiv u = (2 - u) ^ 2 / 2"
  by (auto simp: oneDsplinederiv_def Let_def power2_eq_square field_simps)

lemma deriv_inner_pos: "0 \<le> u \<Longrightarrow> u \<le> 1 \<Longrightarrow> oneDsplinederiv u = 2 * u - 3 * u ^ 2 / 2"
  by (auto simp: oneDsplinederiv_def Let_def power2_eq_square field_simps)

lemma deriv_inner_neg: "- 1 \<le> u \<Longrightarrow> u < 0 \<Longrightarrow> oneDsplinederiv u = 2 * u + 3 * u ^ 2 / 2"
  by (auto simp: oneDsplinederiv_def Let_def power2_eq_square field_simps)

lemma deriv_outer_neg: "- 2 \<le> u \<Longrightarrow> u < - 1 \<Longrightarrow> oneDsplinederiv u = - ((2 + u) ^ 2 / 2)"
  by (auto simp: oneDsplinederiv_def Let_def power2_eq_square field_simps)

lemma deriv_far: "2 < \<bar>u\<bar> \<Longrightarrow> oneDsplinederiv u = 0"
  by (simp add: oneDsplinederiv_def)

text \<open>
  At every point the spline weight is differentiable, and \<^verbatim>\<open>oneDsplinederiv\<close> returns the
  negative of its derivative. The proof goes through the six polynomial pieces of the
  weight and the five points where two of them meet.
\<close>

lemma spread_weight_deriv:
  "(spread_weight has_real_derivative - oneDsplinederiv u) (at u)"
proof -
  consider "u < - 2" | "u = - 2" | "- 2 < u" "u < - 1" | "u = - 1" | "- 1 < u" "u < 0"
    | "u = 0" | "0 < u" "u < 1" | "u = 1" | "1 < u" "u < 2" | "u = 2" | "2 < u"
    by linarith
  then show ?thesis
  proof cases
    case 1
    have "(spread_weight has_real_derivative 0) (at u)"
    proof (rule DERIV_glue[where a = "u - 1" and b = "- 2" and g = "\<lambda>v. 0" and h = "\<lambda>v. 0"])
      show "spread_weight v = 0" if "v \<le> u" for v
        using that 1 by (intro W_far) linarith
      show "spread_weight v = 0" if "v < - 2" for v
        using that by (intro W_far) linarith
    qed (use 1 in auto)
    then show ?thesis using 1 by (simp add: deriv_far)
  next
    case 2
    have "(spread_weight has_real_derivative 0) (at u)"
    proof (rule DERIV_glue[where a = "- 3" and b = "- 1" and g = "\<lambda>v. 0"
            and h = "\<lambda>v. (2 + v) ^ 3 / 6"])
      show "((\<lambda>v::real. (2 + v) ^ 3 / 6) has_real_derivative 0) (at u)"
        using D_outer_neg[of u] 2 by simp
    qed (insert 2, (linarith | (rule W_far W_outer_neg; linarith) | simp)+)
    then show ?thesis using 2 by (simp add: oneDsplinederiv_def)
  next
    case 3
    have "(spread_weight has_real_derivative ((2 + u) ^ 2 / 2)) (at u)"
      by (rule DERIV_glue[where a = "- 2" and b = "- 1", OF _ _ _ _ D_outer_neg D_outer_neg])
         (insert 3, (linarith | (rule W_outer_neg; linarith))+)
    then show ?thesis using 3 by (simp add: deriv_outer_neg)
  next
    case 4
    have "(spread_weight has_real_derivative (1 / 2)) (at u)"
    proof (rule DERIV_glue[where a = "- 2" and b = "0" and g = "\<lambda>v. (2 + v) ^ 3 / 6"
            and h = "\<lambda>v. 2 / 3 - v ^ 2 - v ^ 3 / 2"])
      show "((\<lambda>v::real. (2 + v) ^ 3 / 6) has_real_derivative 1 / 2) (at u)"
        using D_outer_neg[of u] 4 by simp
      show "((\<lambda>v::real. 2 / 3 - v ^ 2 - v ^ 3 / 2) has_real_derivative 1 / 2) (at u)"
        using D_inner_neg[of u] 4 by simp
    qed (insert 4, (linarith | (rule W_outer_neg W_inner_neg; linarith))+)
    then show ?thesis using 4 by (simp add: deriv_inner_neg)
  next
    case 5
    have "(spread_weight has_real_derivative (- 2 * u - 3 * u ^ 2 / 2)) (at u)"
      by (rule DERIV_glue[where a = "- 1" and b = "0", OF _ _ _ _ D_inner_neg D_inner_neg])
         (insert 5, (linarith | (rule W_inner_neg; linarith))+)
    then show ?thesis using 5 by (simp add: deriv_inner_neg)
  next
    case 6
    have "(spread_weight has_real_derivative 0) (at u)"
    proof (rule DERIV_glue[where a = "- 1" and b = "1"
            and g = "\<lambda>v. 2 / 3 - v ^ 2 - v ^ 3 / 2" and h = "\<lambda>v. 2 / 3 - v ^ 2 + v ^ 3 / 2"])
      show "((\<lambda>v::real. 2 / 3 - v ^ 2 - v ^ 3 / 2) has_real_derivative 0) (at u)"
        using D_inner_neg[of u] 6 by simp
      show "((\<lambda>v::real. 2 / 3 - v ^ 2 + v ^ 3 / 2) has_real_derivative 0) (at u)"
        using D_inner_pos[of u] 6 by simp
    qed (insert 6, (linarith | (rule W_inner_neg W_inner_pos; linarith))+)
    then show ?thesis using 6 by (simp add: deriv_inner_pos)
  next
    case 7
    have "(spread_weight has_real_derivative (- 2 * u + 3 * u ^ 2 / 2)) (at u)"
      by (rule DERIV_glue[where a = "0" and b = "1", OF _ _ _ _ D_inner_pos D_inner_pos])
         (insert 7, (linarith | (rule W_inner_pos; linarith))+)
    then show ?thesis using 7 by (simp add: deriv_inner_pos)
  next
    case 8
    have "(spread_weight has_real_derivative (- (1 / 2))) (at u)"
    proof (rule DERIV_glue[where a = "0" and b = "2"
            and g = "\<lambda>v. 2 / 3 - v ^ 2 + v ^ 3 / 2" and h = "\<lambda>v. (2 - v) ^ 3 / 6"])
      show "((\<lambda>v::real. 2 / 3 - v ^ 2 + v ^ 3 / 2) has_real_derivative - (1 / 2)) (at u)"
        using D_inner_pos[of u] 8 by simp
      show "((\<lambda>v::real. (2 - v) ^ 3 / 6) has_real_derivative - (1 / 2)) (at u)"
        using D_outer_pos[of u] 8 by simp
    qed (insert 8, (linarith | (rule W_inner_pos W_outer_pos; linarith))+)
    then show ?thesis using 8 by (simp add: deriv_inner_pos)
  next
    case 9
    have "(spread_weight has_real_derivative - ((2 - u) ^ 2 / 2)) (at u)"
      by (rule DERIV_glue[where a = "1" and b = "2", OF _ _ _ _ D_outer_pos D_outer_pos])
         (insert 9, (linarith | (rule W_outer_pos; linarith))+)
    then show ?thesis using 9 by (simp add: deriv_outer_pos)
  next
    case 10
    have "(spread_weight has_real_derivative 0) (at u)"
    proof (rule DERIV_glue[where a = "1" and b = "3" and g = "\<lambda>v. (2 - v) ^ 3 / 6"
            and h = "\<lambda>v. 0"])
      show "((\<lambda>v::real. (2 - v) ^ 3 / 6) has_real_derivative 0) (at u)"
        using D_outer_pos[of u] 10 by simp
    qed (insert 10, (linarith | (rule W_far W_outer_pos; linarith) | simp)+)
    then show ?thesis using 10 by (simp add: oneDsplinederiv_def)
  next
    case 11
    have "(spread_weight has_real_derivative 0) (at u)"
    proof (rule DERIV_glue[where a = "2" and b = "u + 1" and g = "\<lambda>v. 0" and h = "\<lambda>v. 0"])
      show "spread_weight v = 0" if "2 < v" for v
        using that by (intro W_far) linarith
      show "spread_weight v = 0" if "u \<le> v" for v
        using that 11 by (intro W_far) linarith
    qed (use 11 in auto)
    then show ?thesis using 11 by (simp add: deriv_far)
  qed
qed

text \<open>
  The four weights that a particle at the offset \<open>t\<close> from a mesh point gives to its four
  nearest mesh points on one axis add up to 1.
\<close>

lemma spread_weight_partition_of_unity:
  assumes "0 \<le> t" "t \<le> 1"
  shows "spread_weight (- 1 - t) + spread_weight (- t) + spread_weight (1 - t) +
         spread_weight (2 - t) = 1"
proof -
  have "spread_weight (- 1 - t) = (2 + (- 1 - t)) ^ 3 / 6"
    using assms by (intro W_outer_neg) linarith+
  moreover have "spread_weight (- t) = 2 / 3 - (- t) ^ 2 - (- t) ^ 3 / 2"
    using assms by (intro W_inner_neg) linarith+
  moreover have "spread_weight (1 - t) = 2 / 3 - (1 - t) ^ 2 + (1 - t) ^ 3 / 2"
    using assms by (intro W_inner_pos) linarith+
  moreover have "spread_weight (2 - t) = (2 - (2 - t)) ^ 3 / 6"
    using assms by (intro W_outer_pos) linarith+
  ultimately show ?thesis
    by (simp add: power3_eq_cube power2_eq_square field_simps)
qed

text \<open>
  C9, as amended: \<^verbatim>\<open>oneDsplinederiv\<close> is odd, and on the support \<open>\<bar>u\<bar> \<le> 2\<close> it is the
  negative of the derivative in \<open>u\<close> of the spreading weight \<open>oneDspline (2 - \<bar>u\<bar>)\<close>.
\<close>

theorem oneDsplinederiv_odd_and_negated_derivative:
  "oneDsplinederiv (- u) = - oneDsplinederiv u \<and>
   (\<bar>u\<bar> \<le> 2 \<longrightarrow> (spread_weight has_real_derivative - oneDsplinederiv u) (at u))"
proof
  show "oneDsplinederiv (- u) = - oneDsplinederiv u"
    by (simp add: oneDsplinederiv_def Let_def)
  show "\<bar>u\<bar> \<le> 2 \<longrightarrow> (spread_weight has_real_derivative - oneDsplinederiv u) (at u)"
    using spread_weight_deriv[of u] by simp
qed

theorem oneDsplinederiv_odd_and_negated_derivative_witness:
  "\<bar>1 / 2 :: real\<bar> \<le> 2 \<and>
   oneDsplinederiv (- (1 / 2)) = - (5 / 8) \<and>
   (spread_weight has_real_derivative - (5 / 8)) (at (1 / 2))"
proof -
  have v: "oneDsplinederiv (1 / 2) = 5 / 8"
    by (simp add: oneDsplinederiv_def Let_def)
  show ?thesis
    using oneDsplinederiv_odd_and_negated_derivative[of "1 / 2"] by (simp add: v)
qed

text \<open>
  C9, as stated, fails at \<open>u = 1/2\<close>: there the weight has the derivative \<open>- 5/8\<close> and
  \<^verbatim>\<open>oneDsplinederiv\<close> returns \<open>5/8\<close>.
\<close>

theorem oneDsplinederiv_is_not_the_weight_derivative:
  "\<not> (spread_weight has_real_derivative oneDsplinederiv (1 / 2)) (at (1 / 2))"
proof
  assume a: "(spread_weight has_real_derivative oneDsplinederiv (1 / 2)) (at (1 / 2))"
  have "oneDsplinederiv (1 / 2) = - oneDsplinederiv (1 / 2)"
    using DERIV_unique[OF a spread_weight_deriv[of "1 / 2"]] .
  then show False by (simp add: oneDsplinederiv_def Let_def)
qed


section \<open>Direct Ewald: the reciprocal-space passes\<close>

text \<open>
  C1, at a failing input. One unit charge at \<open>(1/2, 0, 0)\<close> in the box of edge 2, with
  \<open>k_max = 1\<close>, so \<open>k_int = 2\<close> and the view holds \<open>2 * n_kvec = 200\<close> doubles, where
  two scalars for each of the \<open>5\<^sup>3 - 1 = 124\<close> wave-vectors need 248. For the wave-vector
  with \<open>(kx, ky, kz) = (0, 0, - 2)\<close> the phase \<open>k \<cdot> r\<close> is 0, so the pass should add
  \<open>cos 0 = 1\<close> to the real slot; it computes \<open>kr = - \<pi>\<close> and adds \<open>- 1\<close>. For the
  wave-vector \<open>(1, 0, 0)\<close> the partial-sum pass computes \<open>kidx = 263\<close> and adds to the slots
  526 and 527, outside the view of 200 doubles, and the force/potential pass reads the
  slots of \<open>kidx = 63\<close>.
\<close>

theorem partial_sums_phase_and_slot_mismatch:
  "ewald_k_int 1 = 2 \<and>
   2 * ewald_n_kvec 2 = 200 \<and>
   partial_sums_step 2 2 2 2 particle_at_half 0 (- 2) 0 0 zero_memory =
     zero_memory(24 := - 1, 25 := 0) \<and>
   partial_sums_kidx 2 1 0 0 = 263 \<and>
   kspace_potential_kidx 2 1 0 0 = 63 \<and>
   partial_sums_step 2 2 2 2 particle_at_half 0 0 0 1 zero_memory =
     zero_memory(526 := 1, 527 := 0)"
  by (simp add: partial_sums_step_def partial_sums_kidx_def partial_sums_kr_def
      particle_at_half_def kspace_potential_kidx_def ewald_k_int_def ewald_n_kvec_def
      atomic_add_def zero_memory_def PI_def Let_def)

section \<open>Direct Ewald: the real-space kernel\<close>

text \<open>
  For an \<open>erfc\<close> with the derivative of the complementary error function,
  \<open>screened_coulomb_force\<close> is the negative derivative of the pair potential in the
  separation.
\<close>

lemma screened_coulomb_gradient:
  assumes "(erfc has_real_derivative - (2 / sqrt pi) * exp (- ((alpha * d) ^ 2))) (at (alpha * d))"
    and "d \<noteq> 0"
  shows "((\<lambda>r. screened_coulomb erfc alpha qi qj r) has_real_derivative
           - screened_coulomb_force erfc alpha qi qj d) (at d)"
proof -
  have g: "((\<lambda>r. alpha * r) has_real_derivative alpha) (at d)"
    using DERIV_cmult[OF DERIV_ident, of alpha d UNIV] by simp
  have inner: "((\<lambda>r. erfc (alpha * r)) has_real_derivative
                 (- (2 / sqrt pi) * exp (- ((alpha * d) ^ 2))) * alpha) (at d)"
    using DERIV_chain2[where f = erfc and g = "\<lambda>r. alpha * r" and x = d, OF assms(1) g] .
  have num: "((\<lambda>r. (qi * qj) * erfc (alpha * r)) has_real_derivative
                 (qi * qj) * ((- (2 / sqrt pi) * exp (- ((alpha * d) ^ 2))) * alpha)) (at d)"
    using DERIV_cmult[OF inner, of "qi * qj"] .
  have quot: "((\<lambda>r. (qi * qj) * erfc (alpha * r) / r) has_real_derivative
                 ((qi * qj) * ((- (2 / sqrt pi) * exp (- ((alpha * d) ^ 2))) * alpha) * d -
                  (qi * qj) * erfc (alpha * d) * 1) / (d * d)) (at d)"
    using DERIV_divide[OF num DERIV_ident assms(2)] .
  have val: "((qi * qj) * ((- (2 / sqrt pi) * exp (- ((alpha * d) ^ 2))) * alpha) * d -
                  (qi * qj) * erfc (alpha * d) * 1) / (d * d) =
             - screened_coulomb_force erfc alpha qi qj d"
    using assms(2) by (simp add: screened_coulomb_force_def field_simps power2_eq_square)
  show ?thesis
    unfolding screened_coulomb_def using quot unfolding val .
qed

text \<open>
  C2, at a failing input. Two unit charges at distance \<open>d = 2\<close> along x, with \<open>\<alpha> = 1\<close>.
  The kernel adds \<open>0.5 erfc(2) / 2\<close> to both potentials and opposite forces to the two
  particles, but the force it adds has the magnitude \<open>exp(- 4) / \<surd>\<pi> + erfc(2) / 2\<close>, and
  the negative gradient of the pair potential is \<open>exp(- 4) / \<surd>\<pi> + erfc(2) / 4\<close>.
\<close>

theorem force_contribs_force_is_not_the_gradient:
  "is_Done (force_contribs_pair erfc 1 0 1 pair_apart) \<and>
   Potentials (state (force_contribs_pair erfc 1 0 1 pair_apart)) 0 = erfc 2 / 4 \<and>
   Potentials (state (force_contribs_pair erfc 1 0 1 pair_apart)) 1 = erfc 2 / 4 \<and>
   Forces (state (force_contribs_pair erfc 1 0 1 pair_apart)) (0, 0) =
     exp (- 4) / sqrt pi + erfc 2 / 2 \<and>
   Forces (state (force_contribs_pair erfc 1 0 1 pair_apart)) (1, 0) =
     - (exp (- 4) / sqrt pi + erfc 2 / 2) \<and>
   screened_coulomb_force erfc 1 1 1 2 = exp (- 4) / sqrt pi + erfc 2 / 4"
  by (simp add: force_contribs_pair_def pair_apart_def cdiv_def sqrt_four PI_def Let_def
      screened_coulomb_force_def real_sqrt_divide field_simps)

text \<open>
  C3, at a failing input. Particle 1 is a neighbor of particle 0 and sits at the same
  position: the kernel of the direct solver divides by \<open>d = 0\<close>. The kernel takes no
  cutoff either: \<open>force_contribs_pair\<close> has no argument \<open>r_max\<close>.
\<close>

theorem force_contribs_divides_by_zero_separation:
  "force_contribs_pair erfc alpha 0 1 pair_coincident = Failed DivisionByZero pair_coincident"
  by (simp add: force_contribs_pair_def pair_coincident_def cdiv_def Let_def)

text \<open>The all-pairs loop of the mesh solver guards both of its quotients.\<close>

lemma real_space_contrib_guarded: "real_space_contrib erfc alpha r_max qi qj d \<noteq> Inl e"
  by (auto simp: real_space_contrib_def cdiv_def)

lemma real_space_contrib_beyond_cutoff:
  "r_max < d \<Longrightarrow> real_space_contrib erfc alpha r_max qi qj d = Inr 0"
  by (simp add: real_space_contrib_def)

lemma real_space_denominator: "d * d + of_bool (\<bar>d\<bar> \<le> 1 / 10 ^ 12) \<noteq> (0::real)"
proof (cases "\<bar>d\<bar> \<le> 1 / 10 ^ 12")
  case True
  have "0 < d * d + 1" using zero_le_square[of d] by linarith
  then show ?thesis using True by simp
next
  case False
  then have "d \<noteq> 0" by auto
  then show ?thesis using False by simp
qed

lemma real_space_f_fact_guarded: "real_space_f_fact erfc alpha r_max qi qj d \<noteq> Inl e"
  unfolding real_space_f_fact_def cdiv_def
  by (simp only: real_space_denominator if_False) simp

lemma real_space_f_fact_beyond_cutoff:
  assumes "r_max < d"
  shows "real_space_f_fact erfc alpha r_max qi qj d = Inr 0"
proof -
  have "of_bool (d \<le> r_max \<and> \<bar>d\<bar> \<ge> 1 / 10 ^ 12) = (0::real)"
    using assms by simp
  then show ?thesis
    unfolding real_space_f_fact_def cdiv_def
    by (simp only: real_space_denominator if_False) simp
qed

lemma real_space_contrib_case:
  "(case real_space_contrib erfc alpha r_max qi qj d of Inl e \<Rightarrow> A e | Inr c \<Rightarrow> B c) =
     B (projr (real_space_contrib erfc alpha r_max qi qj d))"
  by (cases "real_space_contrib erfc alpha r_max qi qj d")
     (simp_all add: real_space_contrib_guarded)

lemma real_space_f_fact_case:
  "(case real_space_f_fact erfc alpha r_max qi qj d of Inl e \<Rightarrow> A e | Inr c \<Rightarrow> B c) =
     B (projr (real_space_f_fact erfc alpha r_max qi qj d))"
  by (cases "real_space_f_fact erfc alpha r_max qi qj d")
     (simp_all add: real_space_f_fact_guarded)

lemma real_space_pair_guarded: "is_Done (real_space_pair env this i j pz py px st)"
  unfolding real_space_pair_def Let_def real_space_contrib_case real_space_f_fact_case
  by (simp only: outcome.disc)

section \<open>Self energy\<close>

text \<open>The self-energy loop of the direct solver gives each particle its own term.\<close>

lemma calc_Uself_fold:
  "Potentials (fold (calc_Uself alpha) [0..<n] a) idx =
     (if idx < n then Potentials a idx + - alpha / PI_SQRT * Charges a idx * Charges a idx
      else Potentials a idx) \<and>
   Charges (fold (calc_Uself alpha) [0..<n] a) = Charges a"
  by (induction n) (auto simp: calc_Uself_def)

text \<open>
  C4, at a failing input. Two unit charges with zero potentials and \<open>\<alpha> = 1\<close>, the
  reduction of the mesh solver run by one worker over the range \<open>[0, 1]\<close>: the energy is
  \<open>- 2 / \<surd>\<pi>\<close>, particle 0 receives \<open>- 1 / \<surd>\<pi>\<close> and particle 1 receives the running sum
  \<open>- 2 / \<surd>\<pi>\<close>.
\<close>

theorem self_energy_reduce_adds_running_sum:
  "Potentials (snd (self_energy_reduce 1 [[0, 1]] pair_coincident)) 0 = - (1 / sqrt pi) \<and>
   Potentials (snd (self_energy_reduce 1 [[0, 1]] pair_coincident)) 1 = - (2 / sqrt pi) \<and>
   fst (self_energy_reduce 1 [[0, 1]] pair_coincident) = - (2 / sqrt pi)"
  by (simp add: self_energy_reduce_def self_energy_body_def pair_coincident_def PI_SQRT_def
      Let_def)

section \<open>Tuning and the check of the domain\<close>

text \<open>
  What tuning ends with on a cubic domain: the cutoff is scaled by the value of \<^verbatim>\<open>lx\<close>,
  which \<^verbatim>\<open>tune\<close> reads and does not take from the domain.
\<close>

lemma tune_parameters_from_lx:
  assumes "domain_x system = domain_y system" "domain_x system = domain_z system"
  shows "is_Done (ForceSPME_tune accuracy system this) \<and>
     spme_r_max (state (ForceSPME_tune accuracy system this)) =
       (2 powr (1 / 6) * sqrt (- ln accuracy / pi) / real (N system) powr (1 / 6)) *
       spme_lx this \<and>
     spme_alpha (state (ForceSPME_tune accuracy system this)) =
       sqrt (- ln accuracy) / spme_r_max (state (ForceSPME_tune accuracy system this)) \<and>
     spme_k_max (state (ForceSPME_tune accuracy system this)) =
       2 * sqrt (- ln accuracy) * spme_alpha (state (ForceSPME_tune accuracy system this))"
  using assms by (simp add: ForceSPME_tune_def Let_def PI_def)

lemma ln_half: "- ln (1 / 2 :: real) = ln 2"
  using ln_inverse[of "2::real"] by (simp add: inverse_eq_divide)

lemma sqrt_ln2_pi_pos: "0 < sqrt (ln 2 / pi)"
proof -
  have "0 < ln (2::real)" by simp
  then show ?thesis by simp
qed

text \<open>
  C5, at a failing input. The cubic domain of edge 4 with \<open>N = 2\<close> particles, the accuracy
  \<open>1/2\<close> and a solver whose \<^verbatim>\<open>lx\<close> holds 1: tuning ends with \<open>r_max = \<surd>(ln 2 / \<pi>)\<close>, and
  \<open>(2\<^bsup>1/6\<^esup> \<surd>(p/\<pi>) / N\<^bsup>1/6\<^esup>) L\<close> is \<open>4 \<surd>(ln 2 / \<pi>)\<close>.
\<close>

theorem tune_scales_r_max_by_lx_not_by_edge:
  "domain_x cubic_system = 4 \<and> domain_y cubic_system = 4 \<and> domain_z cubic_system = 4 \<and>
   is_Done (ForceSPME_tune (1 / 2) cubic_system stray_lx_solver) \<and>
   spme_r_max (state (ForceSPME_tune (1 / 2) cubic_system stray_lx_solver)) = sqrt (ln 2 / pi) \<and>
   (2 powr (1 / 6) * sqrt (- ln (1 / 2) / pi) / real (N cubic_system) powr (1 / 6)) * 4 =
     4 * sqrt (ln 2 / pi) \<and>
   sqrt (ln 2 / pi) \<noteq> 4 * sqrt (ln 2 / pi)"
proof -
  have c: "domain_x cubic_system = domain_y cubic_system"
    "domain_x cubic_system = domain_z cubic_system"
    by (simp_all add: cubic_system_def)
  have n: "real (N cubic_system) = 2" by (simp add: cubic_system_def)
  have lx: "spme_lx stray_lx_solver = 1" by (simp add: stray_lx_solver_def)
  have p: "(2::real) powr (1 / 6) \<noteq> 0" by simp
  have r: "spme_r_max (state (ForceSPME_tune (1 / 2) cubic_system stray_lx_solver)) =
        sqrt (ln 2 / pi)"
    using tune_parameters_from_lx[OF c, of "1 / 2" stray_lx_solver] p
    by (simp only: n lx ln_half) simp
  have e: "(2 powr (1 / 6) * sqrt (- ln (1 / 2) / pi) / real (N cubic_system) powr (1 / 6)) * 4 =
     4 * sqrt (ln 2 / pi)"
    using p by (simp only: n ln_half) simp
  have d: "sqrt (ln 2 / pi) \<noteq> 4 * sqrt (ln 2 / pi)"
    using sqrt_ln2_pi_pos by simp
  show ?thesis
    using tune_parameters_from_lx[OF c, of "1 / 2" stray_lx_solver] r e d
    by (simp add: cubic_system_def)
qed

theorem tune_scales_r_max_by_lx_not_by_edge_witness:
  "domain_x cubic_system = domain_y cubic_system \<and>
   domain_x cubic_system = domain_z cubic_system \<and>
   spme_lx stray_lx_solver = 1 \<and>
   spme_r_max (state (ForceSPME_tune (1 / 2) cubic_system stray_lx_solver)) = sqrt (ln 2 / pi)"
  using tune_scales_r_max_by_lx_not_by_edge by (simp add: stray_lx_solver_def)

text \<open>
  C6: on a domain whose three edges are not all equal, tuning and the force evaluation of
  the mesh solver stop with a configuration error and leave the solver, the system and the
  mesh as they were.
\<close>

theorem noncubic_domain_is_rejected:
  assumes "\<not> (domain_x system = domain_y system \<and> domain_y system = domain_z system)"
  shows "ForceSPME_tune accuracy system this = Failed ConfigError this \<and>
         TPME_compute env this (system, mesh) = Failed ConfigError (system, mesh)"
  using assms by (auto simp: ForceSPME_tune_def TPME_compute_def Let_def)

theorem noncubic_domain_is_rejected_witness:
  "\<not> (domain_x slab_system = domain_y slab_system \<and> domain_y slab_system = domain_z slab_system) \<and>
   ForceSPME_tune (1 / 2) slab_system spme_solver = Failed ConfigError spme_solver \<and>
   TPME_compute mid_env spme_solver (slab_system, mesh4) = Failed ConfigError (slab_system, mesh4)"
proof -
  have h: "\<not> (domain_x slab_system = domain_y slab_system \<and>
              domain_y slab_system = domain_z slab_system)"
    by (simp add: slab_system_def)
  show ?thesis
    using h noncubic_domain_is_rejected[OF h, of "1 / 2" spme_solver mid_env mesh4] by simp
qed

section \<open>Initialisation of the coefficients\<close>

text \<open>
  C7, on every input: \<^verbatim>\<open>init_coeff\<close> leaves the solver as it was, whatever the arguments
  carry. With the arguments \<open>''0.5''\<close>, \<open>''3.0''\<close>, \<open>''4.0''\<close> at the positions 3, 4, 5 and a
  solver whose \<^verbatim>\<open>_alpha\<close> is 1, \<^verbatim>\<open>_alpha\<close> is 1 after the call.
\<close>

theorem init_coeff_leaves_solver_unchanged:
  "state (ForceEwald_init_coeff atof neigh_cut args this) = this"
  by (simp add: ForceEwald_init_coeff_def Let_def)


section \<open>Charge spreading\<close>

lemma spread_q_Positions: "Positions (spread_q env a h idx m) = Positions m"
proof -
  have "Positions (fold (\<lambda>pidx m.
       let xdist = spread_dist (Positions m (idx, 0)) (env_r env (pidx, 0));
           ydist = spread_dist (Positions m (idx, 1)) (env_r env (pidx, 1));
           zdist = spread_dist (Positions m (idx, 2)) (env_r env (pidx, 2))
       in if xdist \<le> 2 * h \<and> ydist \<le> 2 * h \<and> zdist \<le> 2 * h
          then m\<lparr>Charges := (Charges m)(idx := Charges m idx +
                   Charges a pidx *
                   oneDspline (2 - xdist / h) *
                   oneDspline (2 - ydist / h) *
                   oneDspline (2 - zdist / h))\<rparr>
          else m) ps m) = Positions m" for ps
    by (induction ps arbitrary: m) (simp_all add: Let_def)
  then show ?thesis by (simp add: spread_q_def)
qed

lemma spread_q_list_size: "list_size (spread_q env a h idx m) = list_size m"
proof -
  have "list_size (fold (\<lambda>pidx m.
       let xdist = spread_dist (Positions m (idx, 0)) (env_r env (pidx, 0));
           ydist = spread_dist (Positions m (idx, 1)) (env_r env (pidx, 1));
           zdist = spread_dist (Positions m (idx, 2)) (env_r env (pidx, 2))
       in if xdist \<le> 2 * h \<and> ydist \<le> 2 * h \<and> zdist \<le> 2 * h
          then m\<lparr>Charges := (Charges m)(idx := Charges m idx +
                   Charges a pidx *
                   oneDspline (2 - xdist / h) *
                   oneDspline (2 - ydist / h) *
                   oneDspline (2 - zdist / h))\<rparr>
          else m) ps m) = list_size m" for ps
    by (induction ps arbitrary: m) (simp_all add: Let_def)
  then show ?thesis by (simp add: spread_q_def)
qed

text \<open>
  With the period 1 that \<^verbatim>\<open>spread_q\<close> adds to and subtracts from the particle position,
  every mesh coordinate 0, 1, 2, 3 is at the distance \<open>1/2\<close> from the coordinate \<open>3/2\<close>;
  the distances in the domain of edge 4 are \<open>3/2, 1/2, 1/2, 3/2\<close>.
\<close>

lemma spread_dist_mesh4: "k < 4 \<Longrightarrow> spread_dist (real k) (3 / 2) = 1 / 2"
proof -
  assume "k < 4"
  then have "k = 0 \<or> k = 1 \<or> k = 2 \<or> k = 3" by linarith
  then show ?thesis by (auto simp: spread_dist_def)
qed

lemma oneDspline_three_halves: "oneDspline (3 / 2) = 23 / 48"
  by (simp add: oneDspline_def)

lemma mesh4_coords:
  "idx < 64 \<Longrightarrow> \<exists>k<4. Positions mesh4 (idx, 0) = real k"
  "idx < 64 \<Longrightarrow> \<exists>k<4. Positions mesh4 (idx, 1) = real k"
  "idx < 64 \<Longrightarrow> \<exists>k<4. Positions mesh4 (idx, 2) = real k"
  by (auto simp: mesh4_def intro: exI[of _ "idx mod 4"] exI[of _ "idx div 4 mod 4"]
      exI[of _ "idx div 16"])

lemma spread_q_mesh4_step:
  assumes "idx < 64" "Positions m = Positions mesh4"
  shows "spread_q mid_env particle_mid 1 idx m =
           m\<lparr>Charges := (Charges m)(idx := Charges m idx + 12167 / 110592)\<rparr>"
proof -
  obtain kx ky kz where k: "kx < 4" "ky < 4" "kz < 4"
    "Positions mesh4 (idx, 0) = real kx" "Positions mesh4 (idx, 1) = real ky"
    "Positions mesh4 (idx, 2) = real kz"
    using mesh4_coords[OF assms(1)] by blast
  show ?thesis
    using k assms(2)
    by (simp add: spread_q_def mid_env_def particle_mid_def Let_def spread_dist_mesh4
        oneDspline_three_halves)
qed

lemma spread_q_mesh4_fold:
  assumes "n \<le> 64" "Positions m = Positions mesh4"
  shows "Positions (fold (spread_q mid_env particle_mid 1) [0..<n] m) = Positions mesh4 \<and>
         Charges (fold (spread_q mid_env particle_mid 1) [0..<n] m) =
           (\<lambda>i. if i < n then Charges m i + 12167 / 110592 else Charges m i)"
  using assms
proof (induction n)
  case 0
  then show ?case by simp
next
  case (Suc n)
  then have IH: "Positions (fold (spread_q mid_env particle_mid 1) [0..<n] m) = Positions mesh4"
    "Charges (fold (spread_q mid_env particle_mid 1) [0..<n] m) =
           (\<lambda>i. if i < n then Charges m i + 12167 / 110592 else Charges m i)"
    by simp_all
  have n: "n < 64" using Suc.prems by simp
  show ?case
    by (auto simp: spread_q_mesh4_step[OF n IH(1)] IH fun_eq_iff)
qed

text \<open>
  \<^verbatim>\<open>spread_q\<close> adds to the mesh charge it finds: spreading the same particle a second time on
  the same mesh doubles the charge of every mesh point.
\<close>

lemma spread_q_accumulates_on_mesh4:
  assumes "idx < 64"
  shows "Charges (fold (spread_q mid_env particle_mid 1) [0..<64]
           (fold (spread_q mid_env particle_mid 1) [0..<64] mesh4)) idx =
         2 * (12167 / 110592)"
proof -
  have first: "Positions (fold (spread_q mid_env particle_mid 1) [0..<64] mesh4) = Positions mesh4"
    "Charges (fold (spread_q mid_env particle_mid 1) [0..<64] mesh4) =
       (\<lambda>i. if i < 64 then Charges mesh4 i + 12167 / 110592 else Charges mesh4 i)"
    using spread_q_mesh4_fold[of 64 mesh4] by simp_all
  have c0: "Charges mesh4 i = 0" for i by (simp add: mesh4_def)
  show ?thesis
    using spread_q_mesh4_fold[of 64 "fold (spread_q mid_env particle_mid 1) [0..<64] mesh4"]
      first assms
    by (simp add: c0)
qed

text \<open>
  C8, at a failing input. The mesh of spacing \<open>Positions mesh4 (1, 0) - Positions mesh4 (0, 0) = 1\<close>
  on the domain of edge 4 and one unit charge at \<open>(3/2, 3/2, 3/2)\<close>: every one of the 64
  mesh points receives \<open>(23/48)\<^sup>3\<close>, and the mesh charges add up to \<open>12167/1728\<close>, where the
  particle charges add up to 1.
\<close>

theorem spread_q_total_charge_not_conserved:
  "Positions mesh4 (1, 0) - Positions mesh4 (0, 0) = 1 \<and>
   total_mesh_charge (fold (spread_q mid_env particle_mid 1) [0..<list_size mesh4] mesh4) =
     12167 / 1728 \<and>
   sum_list (map (Charges particle_mid) [0..<env_particles_size mid_env]) = 1"
proof -
  have ls: "list_size mesh4 = 64" by (simp add: mesh4_def)
  have c0: "Charges mesh4 i = 0" for i by (simp add: mesh4_def)
  have sz: "list_size (fold (spread_q mid_env particle_mid 1) [0..<n] m) = list_size m" for n m
    by (induction n) (simp_all add: spread_q_list_size)
  have ch: "Charges (fold (spread_q mid_env particle_mid 1) [0..<64] mesh4) =
           (\<lambda>i. if i < 64 then Charges mesh4 i + 12167 / 110592 else Charges mesh4 i)"
    using spread_q_mesh4_fold[of 64 mesh4] by simp
  have eq: "map (Charges (fold (spread_q mid_env particle_mid 1) [0..<64] mesh4)) [0..<64] =
          map (\<lambda>i. 12167 / 110592) [0..<64]"
    by (rule map_cong) (simp_all add: ch c0)
  have total: "total_mesh_charge (fold (spread_q mid_env particle_mid 1) [0..<list_size mesh4] mesh4) =
     12167 / 1728"
    unfolding total_mesh_charge_def sz ls eq by (simp add: sum_list_triv)
  have spacing: "Positions mesh4 (1, 0) - Positions mesh4 (0, 0) = 1"
    by (simp add: mesh4_def)
  have particles: "sum_list (map (Charges particle_mid) [0..<env_particles_size mid_env]) = 1"
    by (simp add: mid_env_def particle_mid_def)
  show ?thesis using spacing total particles by simp
qed

section \<open>Zeroing of the potential and force slices\<close>

lemma fold_invariant:
  assumes "\<And>x s. x \<in> set xs \<Longrightarrow> P s \<Longrightarrow> P (f x s)" and "P s"
  shows "P (fold f xs s)"
  using assms by (induction xs arbitrary: s) simp_all

lemma foreach_invariant:
  assumes "\<And>i s. i \<in> set xs \<Longrightarrow> P s \<Longrightarrow> P (state (body i s))" and "P s"
  shows "P (state (foreach xs body s))"
  using assms
proof (induction xs arbitrary: s)
  case Nil
  then show ?case by simp
next
  case (Cons i rest)
  have step: "P (state (body i s))" using Cons.prems by simp
  show ?case
  proof (cases "body i s")
    case (Done u s')
    then have "P s'" using step by simp
    then have "P (state (foreach rest body s'))"
      using Cons.IH[of s'] Cons.prems(1) by simp
    then show ?thesis using Done by simp
  next
    case (Failed e s')
    then show ?thesis using step by simp
  qed
qed

lemma foreach_completes:
  assumes "\<And>i s. i \<in> set xs \<Longrightarrow> P s \<Longrightarrow> is_Done (body i s) \<and> P (state (body i s))"
    and "P s"
  shows "is_Done (foreach xs body s) \<and> P (state (foreach xs body s))"
  using assms
proof (induction xs arbitrary: s)
  case Nil
  then show ?case by simp
next
  case (Cons i rest)
  have step: "is_Done (body i s) \<and> P (state (body i s))" using Cons.prems by simp
  then obtain u s' where b: "body i s = Done u s'" by (cases "body i s") simp_all
  then have "P s'" using step by simp
  then have "is_Done (foreach rest body s') \<and> P (state (foreach rest body s'))"
    using Cons.IH[of s'] Cons.prems(1) by simp
  then show ?case using b by simp
qed

lemma foreach_total:
  assumes "\<And>i s. is_Done (body i s)"
  shows "is_Done (foreach xs body s)"
  using foreach_completes[where P = "\<lambda>s. True" and body = body and xs = xs and s = s] assms
  by simp

lemma init_parameters_fold: "fold init_parameters [0..<n] a = zero_below n a"
proof (induction n)
  case 0
  then show ?case by (simp add: zero_below_def)
next
  case (Suc n)
  have eqF: "(\<lambda>(i, d). if i < n then 0 else Forces a (i, d))((n, 0) := 0, (n, 1) := 0, (n, 2) := 0) =
             (\<lambda>(i, d). if i < Suc n then 0 else Forces a (i, d))"
    using axis_cases by (auto simp: fun_eq_iff)
  have eqP: "(\<lambda>i. if i < n then 0 else Potentials a i)(n := 0) =
             (\<lambda>i. if i < Suc n then 0 else Potentials a i)"
    by (auto simp: fun_eq_iff)
  have "fold init_parameters [0..<Suc n] a = init_parameters n (fold init_parameters [0..<n] a)"
    by simp
  also have "\<dots> = init_parameters n
      (a\<lparr>Potentials := (\<lambda>i. if i < n then 0 else Potentials a i),
         Forces := (\<lambda>(i, d). if i < n then 0 else Forces a (i, d))\<rparr>)"
    by (simp only: Suc zero_below_def)
  also have "\<dots> = a\<lparr>Potentials := (\<lambda>i. if i < n then 0 else Potentials a i)(n := 0),
         Forces := (\<lambda>(i, d). if i < n then 0 else Forces a (i, d))
                     ((n, 0) := 0, (n, 1) := 0, (n, 2) := 0)\<rparr>"
    by (simp add: init_parameters_def)
  also have "\<dots> = a\<lparr>Potentials := (\<lambda>i. if i < Suc n then 0 else Potentials a i),
         Forces := (\<lambda>(i, d). if i < Suc n then 0 else Forces a (i, d))\<rparr>"
    by (simp only: eqF eqP)
  finally show ?case by (simp only: zero_below_def)
qed

lemma init_p_fold: "fold init_p [0..<n] a = zero_below n a"
proof -
  have "init_p = init_parameters"
    by (simp add: fun_eq_iff init_p_def init_parameters_def)
  then show ?thesis by (simp add: init_parameters_fold)
qed

lemma zero_below_fields:
  "Positions (zero_below n a) = Positions a"
  "Charges (zero_below n a) = Charges a"
  "list_size (zero_below n a) = list_size a"
  "Potentials (zero_below n a) k = (if k < n then 0 else Potentials a k)"
  "Forces (zero_below n a) (k, d) = (if k < n then 0 else Forces a (k, d))"
  by (simp_all add: zero_below_def)

subsection \<open>The mesh solver completes on a cubic domain\<close>

lemma real_space_pair_Potentials:
  "Potentials (fst (state (real_space_pair env this i j pz py px st))) = Potentials (fst st)"
  unfolding real_space_pair_def Let_def real_space_contrib_case real_space_f_fact_case
  by simp

lemma real_space_team_completes: "is_Done (real_space_team env this n i st)"
proof (cases "i < n")
  case False
  then show ?thesis by (simp add: real_space_team_def)
next
  case True
  let ?inner = "foreach [0..<n] (\<lambda>j.
        foreach [- \<lceil>spme_r_max this / spme_lx this\<rceil>..\<lceil>spme_r_max this / spme_lx this\<rceil>] (\<lambda>pz.
          foreach [- \<lceil>spme_r_max this / spme_lx this\<rceil>..\<lceil>spme_r_max this / spme_lx this\<rceil>] (\<lambda>py.
            foreach [- \<lceil>spme_r_max this / spme_lx this\<rceil>..\<lceil>spme_r_max this / spme_lx this\<rceil>] (\<lambda>px.
              real_space_pair env this i j pz py px)))) (fst st, 0)"
  have "is_Done ?inner"
    by (intro foreach_total real_space_pair_guarded)
  then obtain u st' where "?inner = Done u st'" by (cases ?inner) simp_all
  then show ?thesis using True by (simp add: real_space_team_def Let_def)
qed

lemma real_space_team_Potentials:
  assumes "n \<le> k"
  shows "Potentials (fst (state (real_space_team env this n i st))) k = Potentials (fst st) k"
proof (cases "i < n")
  case False
  then show ?thesis by (simp add: real_space_team_def)
next
  case True
  let ?inner = "foreach [0..<n] (\<lambda>j.
        foreach [- \<lceil>spme_r_max this / spme_lx this\<rceil>..\<lceil>spme_r_max this / spme_lx this\<rceil>] (\<lambda>pz.
          foreach [- \<lceil>spme_r_max this / spme_lx this\<rceil>..\<lceil>spme_r_max this / spme_lx this\<rceil>] (\<lambda>py.
            foreach [- \<lceil>spme_r_max this / spme_lx this\<rceil>..\<lceil>spme_r_max this / spme_lx this\<rceil>] (\<lambda>px.
              real_space_pair env this i j pz py px)))) (fst st, 0)"
  have inv: "Potentials (fst (state ?inner)) = Potentials (fst st)"
    by (rule foreach_invariant[where P = "\<lambda>s. Potentials (fst s) = Potentials (fst st)"],
        rule foreach_invariant, rule foreach_invariant, rule foreach_invariant)
       (simp_all add: real_space_pair_Potentials)
  have ik: "i \<noteq> k" using True assms by simp
  show ?thesis
  proof (cases ?inner)
    case (Done u st')
    then show ?thesis using True inv ik by (simp add: real_space_team_def Let_def)
  next
    case (Failed e st')
    then show ?thesis using True inv by (simp add: real_space_team_def Let_def)
  qed
qed

lemma TPME_accumulate_completes: "is_Done (TPME_accumulate env this st)"
proof -
  let ?rs = "foreach [0..<N (fst st)] (real_space_team env this (N (fst st))) (xvf (fst st), 0)"
  have "is_Done ?rs"
    by (intro foreach_total real_space_team_completes)
  then obtain u rs where "?rs = Done u rs" by (cases ?rs) simp_all
  then show ?thesis by (simp add: TPME_accumulate_def Let_def)
qed

lemma TPME_compute_zeroes_first:
  assumes "domain_x system = domain_y system" "domain_x system = domain_z system"
  shows "TPME_compute env this (system, mesh) =
           TPME_accumulate env this (system\<lparr>xvf := zero_below (N system) (xvf system)\<rparr>, mesh)"
  using assms by (simp add: TPME_compute_def Let_def init_p_fold)

subsection \<open>What the mesh solver leaves untouched\<close>

lemma self_energy_body_Potentials:
  "idx \<noteq> k \<Longrightarrow> Potentials (snd (self_energy_body alpha idx st)) k = Potentials (snd st) k"
  by (simp add: self_energy_body_def Let_def)

lemma self_energy_reduce_Potentials:
  assumes "\<forall>share \<in> set shares. k \<notin> set share"
  shows "Potentials (snd (self_energy_reduce alpha shares a)) k = Potentials a k"
proof -
  have worker: "Potentials (snd (fold (self_energy_body alpha) share st)) k = Potentials (snd st) k"
    if "k \<notin> set share" for share and st :: "real \<times> ParticleList"
  proof (rule fold_invariant[where P = "\<lambda>s. Potentials (snd s) k = Potentials (snd st) k"])
    fix x and s :: "real \<times> ParticleList"
    assume x: "x \<in> set share" and s: "Potentials (snd s) k = Potentials (snd st) k"
    have "x \<noteq> k" using x that by auto
    then show "Potentials (snd (self_energy_body alpha x s)) k = Potentials (snd st) k"
      using s by (simp add: self_energy_body_Potentials)
  qed simp
  have "Potentials (snd (fold (\<lambda>share st.
            let w = fold (self_energy_body alpha) share (0, snd st)
            in (fst st + fst w, snd w)) shares (0, a))) k = Potentials (snd (0::real, a)) k"
    by (rule fold_invariant[where P = "\<lambda>s. Potentials (snd s) k = Potentials (snd (0::real, a)) k"])
       (use assms in \<open>simp_all add: Let_def worker\<close>)
  then show ?thesis by (simp add: self_energy_reduce_def)
qed

lemma gather_f_Potentials:
  "Potentials (gather_f env mesh spacing meshsize qk pidx a) = Potentials a"
  unfolding gather_f_def
  by (rule fold_invariant[where P = "\<lambda>b. Potentials b = Potentials a"])
     (simp_all add: Let_def)

lemma TPME_accumulate_Potentials:
  assumes "N (fst st) \<le> k"
    and "\<forall>share \<in> set (env_schedule env (N (fst st))). k \<notin> set share"
  shows "Potentials (xvf (fst (state (TPME_accumulate env this st)))) k =
           Potentials (xvf (fst st)) k"
proof -
  let ?rs = "foreach [0..<N (fst st)] (real_space_team env this (N (fst st))) (xvf (fst st), 0)"
  have inv: "Potentials (fst (state ?rs)) k = Potentials (xvf (fst st)) k"
    by (rule foreach_invariant[where P = "\<lambda>s. Potentials (fst s) k = Potentials (xvf (fst st)) k"])
       (simp_all add: real_space_team_Potentials[OF assms(1)])
  have gather: "Potentials (fold (gather_f env m h ms qk) ps a) = Potentials a" for m h ms qk ps a
    by (rule fold_invariant[where P = "\<lambda>b. Potentials b = Potentials a"])
       (simp_all add: gather_f_Potentials)
  show ?thesis
  proof (cases ?rs)
    case (Done u rs)
    then show ?thesis
      using inv by (simp add: TPME_accumulate_def Let_def gather
          self_energy_reduce_Potentials[OF assms(2)])
  next
    case (Failed e rs)
    then show ?thesis using inv by (simp add: TPME_accumulate_def Let_def)
  qed
qed

subsection \<open>The direct solver completes when neighbors are apart\<close>

lemma kspace_potential_step_fixed:
  "Positions (kspace_potential_step alpha k_int lx ly lz U idx kz ky kx a) = Positions a"
  by (simp add: kspace_potential_step_def Let_def)

lemma kspace_potential_fixed:
  "Positions (kspace_potential alpha k_int lx ly lz U idx a) = Positions a"
  unfolding kspace_potential_def
  by (rule fold_invariant[where P = "\<lambda>b. Positions b = Positions a"],
      rule fold_invariant, rule fold_invariant)
     (simp_all add: kspace_potential_step_fixed)

lemma force_contribs_pair_completes:
  assumes "(Positions a (j, 0) - Positions a (idx, 0)) * (Positions a (j, 0) - Positions a (idx, 0)) +
           (Positions a (j, 1) - Positions a (idx, 1)) * (Positions a (j, 1) - Positions a (idx, 1)) +
           (Positions a (j, 2) - Positions a (idx, 2)) * (Positions a (j, 2) - Positions a (idx, 2)) \<noteq> 0"
  shows "is_Done (force_contribs_pair erfc alpha idx j a) \<and>
         Positions (state (force_contribs_pair erfc alpha idx j a)) = Positions a"
  using assms by (simp add: force_contribs_pair_def Let_def cdiv_def)

lemma ForceEwald_compute_completes:
  assumes "N_max system = N_local system"
    and "\<forall>idx < N_local system. \<forall>j \<in> set (neigh_list this idx).
           (Positions (xvf system) (j, 0) - Positions (xvf system) (idx, 0)) *
           (Positions (xvf system) (j, 0) - Positions (xvf system) (idx, 0)) +
           (Positions (xvf system) (j, 1) - Positions (xvf system) (idx, 1)) *
           (Positions (xvf system) (j, 1) - Positions (xvf system) (idx, 1)) +
           (Positions (xvf system) (j, 2) - Positions (xvf system) (idx, 2)) *
           (Positions (xvf system) (j, 2) - Positions (xvf system) (idx, 2)) \<noteq> 0"
  shows "is_Done (ForceEwald_compute erfc mpi heap this system)"
proof -
  let ?a0 = "zero_below (N_max system) (xvf system)"
  let ?U = "mpi (nat (2 * ewald_n_kvec (ewald_k_int (ewald_k_max this))))
      (fold (partial_sums (ewald_k_int (ewald_k_max this)) (domain_x system) (domain_y system)
               (domain_z system) ?a0) [0..<N_max system]
         (fold U_trigonometric_zero
            [0..<nat (2 * ewald_n_kvec (ewald_k_int (ewald_k_max this)))] heap))"
  let ?a1 = "fold (kspace_potential (ewald_alpha this) (ewald_k_int (ewald_k_max this))
               (domain_x system) (domain_y system) (domain_z system) ?U) [0..<N_max system] ?a0"
  let ?fc = "foreach [0..<N_local system]
               (force_contribs erfc (ewald_alpha this) (neigh_list this)) ?a1"
  have p1: "Positions ?a1 = Positions (xvf system)"
    by (rule fold_invariant[where P = "\<lambda>b. Positions b = Positions (xvf system)"])
       (simp_all add: kspace_potential_fixed zero_below_fields)
  have "is_Done ?fc \<and> Positions (state ?fc) = Positions (xvf system)"
  proof (rule foreach_completes[where P = "\<lambda>b. Positions b = Positions (xvf system)"])
    fix idx and b :: ParticleList
    assume idx: "idx \<in> set [0..<N_local system]" and b: "Positions b = Positions (xvf system)"
    show "is_Done (force_contribs erfc (ewald_alpha this) (neigh_list this) idx b) \<and>
          Positions (state (force_contribs erfc (ewald_alpha this) (neigh_list this) idx b)) =
            Positions (xvf system)"
      unfolding force_contribs_def
    proof (rule foreach_completes[where P = "\<lambda>b. Positions b = Positions (xvf system)"])
      fix j and c :: ParticleList
      assume j: "j \<in> set (neigh_list this idx)" and c: "Positions c = Positions (xvf system)"
      have "(Positions c (j, 0) - Positions c (idx, 0)) * (Positions c (j, 0) - Positions c (idx, 0)) +
            (Positions c (j, 1) - Positions c (idx, 1)) * (Positions c (j, 1) - Positions c (idx, 1)) +
            (Positions c (j, 2) - Positions c (idx, 2)) * (Positions c (j, 2) - Positions c (idx, 2)) \<noteq> 0"
        using assms(2) idx j unfolding c by simp
      then show "is_Done (force_contribs_pair erfc (ewald_alpha this) idx j c) \<and>
            Positions (state (force_contribs_pair erfc (ewald_alpha this) idx j c)) =
              Positions (xvf system)"
        using force_contribs_pair_completes[of c j idx erfc "ewald_alpha this"] c by simp
    qed (rule b)
  qed (rule p1)
  then obtain u a2 where "?fc = Done u a2" by (cases ?fc) simp_all
  then show ?thesis
    using assms(1)
    by (simp add: ForceEwald_compute_def ForceEwald_accumulate_def Let_def init_parameters_fold)
qed

text \<open>
  C10, as amended. The direct solver sets the potential and the three force components of
  every index below \<open>N_max\<close> to zero and the mesh solver, on a cubic domain, those of every
  index below \<open>N\<close>; everything each of them does after that starts from the zeroed
  container. So two entry containers that differ only in the zeroed values give the same
  outcome, the same energy and the same final state, all other inputs being the same (for
  the mesh solver this includes the mesh and its charge). On a cubic domain the mesh solver
  runs to its end. The bound on \<open>k_max\<close> keeps every index of the reciprocal-space kernels
  within 32 bits.
\<close>

theorem compute_forgets_entry_values:
  "(0 \<le> ewald_k_max ewald \<and> ewald_k_max ewald \<le> 89 \<longrightarrow>
      ForceEwald_compute erfc mpi heap ewald system =
        ForceEwald_accumulate erfc mpi heap ewald
          (system\<lparr>xvf := zero_below (N_max system) (xvf system)\<rparr>)) \<and>
   (0 \<le> ewald_k_max ewald \<and> ewald_k_max ewald \<le> 89 \<and>
    zero_below (N_max system) a1 = zero_below (N_max system) a2 \<longrightarrow>
      ForceEwald_compute erfc mpi heap ewald (system\<lparr>xvf := a1\<rparr>) =
        ForceEwald_compute erfc mpi heap ewald (system\<lparr>xvf := a2\<rparr>)) \<and>
   (domain_x system = domain_y system \<and> domain_x system = domain_z system \<longrightarrow>
      TPME_compute env spme (system, mesh) =
        TPME_accumulate env spme (system\<lparr>xvf := zero_below (N system) (xvf system)\<rparr>, mesh) \<and>
      is_Done (TPME_compute env spme (system, mesh))) \<and>
   (domain_x system = domain_y system \<and> domain_x system = domain_z system \<and>
    zero_below (N system) a1 = zero_below (N system) a2 \<longrightarrow>
      TPME_compute env spme (system\<lparr>xvf := a1\<rparr>, mesh) =
        TPME_compute env spme (system\<lparr>xvf := a2\<rparr>, mesh))"
proof -
  have e1: "ForceEwald_compute erfc mpi heap ewald s =
        ForceEwald_accumulate erfc mpi heap ewald (s\<lparr>xvf := zero_below (N_max s) (xvf s)\<rparr>)" for s
    by (simp add: ForceEwald_compute_def init_parameters_fold)
  have e2: "ForceEwald_compute erfc mpi heap ewald (system\<lparr>xvf := a1\<rparr>) =
        ForceEwald_compute erfc mpi heap ewald (system\<lparr>xvf := a2\<rparr>)"
    if "zero_below (N_max system) a1 = zero_below (N_max system) a2"
    using that by (simp add: e1)
  have s1: "TPME_compute env spme (s, mesh) =
        TPME_accumulate env spme (s\<lparr>xvf := zero_below (N s) (xvf s)\<rparr>, mesh)"
    if "domain_x s = domain_y s" "domain_x s = domain_z s" for s
    using that by (rule TPME_compute_zeroes_first)
  have s2: "TPME_compute env spme (system\<lparr>xvf := a1\<rparr>, mesh) =
        TPME_compute env spme (system\<lparr>xvf := a2\<rparr>, mesh)"
    if "domain_x system = domain_y system" "domain_x system = domain_z system"
      "zero_below (N system) a1 = zero_below (N system) a2"
    using that by (simp add: s1)
  have s3: "is_Done (TPME_compute env spme (system, mesh))"
    if "domain_x system = domain_y system" "domain_x system = domain_z system"
    using that by (simp add: s1 TPME_accumulate_completes)
  show ?thesis using e1 e2 s1 s2 s3 by blast
qed

theorem compute_forgets_entry_values_witness:
  "ForceEwald_compute libm_erfc single_rank_allreduce zero_memory ewald_solver
     (cubic_system\<lparr>xvf := pair_apart_stale\<rparr>) =
   ForceEwald_compute libm_erfc single_rank_allreduce zero_memory ewald_solver
     (cubic_system\<lparr>xvf := pair_apart\<rparr>) \<and>
   is_Done (ForceEwald_compute libm_erfc single_rank_allreduce zero_memory ewald_solver
     (cubic_system\<lparr>xvf := pair_apart_stale\<rparr>)) \<and>
   TPME_compute mid_env spme_solver (cubic_system\<lparr>xvf := pair_apart_stale\<rparr>, mesh4) =
   TPME_compute mid_env spme_solver (cubic_system\<lparr>xvf := pair_apart\<rparr>, mesh4) \<and>
   is_Done (TPME_compute mid_env spme_solver (cubic_system\<lparr>xvf := pair_apart_stale\<rparr>, mesh4))"
proof -
  have k: "0 \<le> ewald_k_max ewald_solver \<and> ewald_k_max ewald_solver \<le> 89"
    by (simp add: ewald_solver_def)
  have cubic: "domain_x cubic_system = domain_y cubic_system \<and>
               domain_x cubic_system = domain_z cubic_system"
    by (simp add: cubic_system_def)
  have n: "N_max cubic_system = 2" "N cubic_system = 2" "N_local cubic_system = 2"
    by (simp_all add: cubic_system_def)
  have z: "zero_below 2 pair_apart_stale = zero_below 2 pair_apart"
    by (simp add: zero_below_def pair_apart_stale_def pair_apart_def stale_potentials_def
        stale_forces_def fun_eq_iff)
  have apart: "\<forall>idx < N_local (cubic_system\<lparr>xvf := pair_apart_stale\<rparr>).
      \<forall>j \<in> set (neigh_list ewald_solver idx).
        (Positions (xvf (cubic_system\<lparr>xvf := pair_apart_stale\<rparr>)) (j, 0) -
         Positions (xvf (cubic_system\<lparr>xvf := pair_apart_stale\<rparr>)) (idx, 0)) *
        (Positions (xvf (cubic_system\<lparr>xvf := pair_apart_stale\<rparr>)) (j, 0) -
         Positions (xvf (cubic_system\<lparr>xvf := pair_apart_stale\<rparr>)) (idx, 0)) +
        (Positions (xvf (cubic_system\<lparr>xvf := pair_apart_stale\<rparr>)) (j, 1) -
         Positions (xvf (cubic_system\<lparr>xvf := pair_apart_stale\<rparr>)) (idx, 1)) *
        (Positions (xvf (cubic_system\<lparr>xvf := pair_apart_stale\<rparr>)) (j, 1) -
         Positions (xvf (cubic_system\<lparr>xvf := pair_apart_stale\<rparr>)) (idx, 1)) +
        (Positions (xvf (cubic_system\<lparr>xvf := pair_apart_stale\<rparr>)) (j, 2) -
         Positions (xvf (cubic_system\<lparr>xvf := pair_apart_stale\<rparr>)) (idx, 2)) *
        (Positions (xvf (cubic_system\<lparr>xvf := pair_apart_stale\<rparr>)) (j, 2) -
         Positions (xvf (cubic_system\<lparr>xvf := pair_apart_stale\<rparr>)) (idx, 2)) \<noteq> 0"
    by (simp add: ewald_solver_def pair_apart_stale_def pair_apart_def)
  have edone: "is_Done (ForceEwald_compute libm_erfc single_rank_allreduce zero_memory
      ewald_solver (cubic_system\<lparr>xvf := pair_apart_stale\<rparr>))"
    by (rule ForceEwald_compute_completes[OF _ apart]) (simp add: cubic_system_def)
  have z': "zero_below (N_max cubic_system) pair_apart_stale =
            zero_below (N_max cubic_system) pair_apart"
    "zero_below (N cubic_system) pair_apart_stale = zero_below (N cubic_system) pair_apart"
    using z by (simp_all add: n)
  have inst: "(ForceEwald_compute libm_erfc single_rank_allreduce zero_memory ewald_solver
       (cubic_system\<lparr>xvf := pair_apart_stale\<rparr>) =
     ForceEwald_compute libm_erfc single_rank_allreduce zero_memory ewald_solver
       (cubic_system\<lparr>xvf := pair_apart\<rparr>)) \<and>
    (TPME_compute mid_env spme_solver (cubic_system\<lparr>xvf := pair_apart_stale\<rparr>, mesh4) =
     TPME_compute mid_env spme_solver (cubic_system\<lparr>xvf := pair_apart\<rparr>, mesh4))"
    using compute_forgets_entry_values[of ewald_solver libm_erfc single_rank_allreduce
        zero_memory cubic_system pair_apart_stale pair_apart mid_env spme_solver mesh4]
      k cubic z'
    by blast
  have cubic': "domain_x (cubic_system\<lparr>xvf := pair_apart_stale\<rparr>) =
                domain_y (cubic_system\<lparr>xvf := pair_apart_stale\<rparr>) \<and>
                domain_x (cubic_system\<lparr>xvf := pair_apart_stale\<rparr>) =
                domain_z (cubic_system\<lparr>xvf := pair_apart_stale\<rparr>)"
    by (simp add: cubic_system_def)
  have sdone: "is_Done (TPME_compute mid_env spme_solver
      (cubic_system\<lparr>xvf := pair_apart_stale\<rparr>, mesh4))"
    using compute_forgets_entry_values[of ewald_solver libm_erfc single_rank_allreduce
        zero_memory "cubic_system\<lparr>xvf := pair_apart_stale\<rparr>" pair_apart_stale pair_apart
        mid_env spme_solver mesh4] cubic'
    by blast
  show ?thesis using inst edone sdone by simp
qed

text \<open>
  C10, as stated, fails for the mesh solver on a system with a ghost particle: with
  \<open>N = 1\<close> and \<open>N_max = 2\<close> the resident particle 1 is neither zeroed nor touched, so its
  final potential is the value it held at entry, 5 in one run and 0 in the other.
\<close>

theorem TPME_compute_keeps_entry_value_of_ghost:
  "N_max ghost_system_stale = 2 \<and>
   N_max ghost_system_clean = 2 \<and>
   is_Done (TPME_compute mid_env spme_solver (ghost_system_stale, mesh4)) \<and>
   is_Done (TPME_compute mid_env spme_solver (ghost_system_clean, mesh4)) \<and>
   Potentials (xvf (fst (state (TPME_compute mid_env spme_solver (ghost_system_stale, mesh4))))) 1 = 5 \<and>
   Potentials (xvf (fst (state (TPME_compute mid_env spme_solver (ghost_system_clean, mesh4))))) 1 = 0"
proof -
  have frame: "Potentials (xvf (fst (state (TPME_compute mid_env spme_solver (s, mesh4))))) 1 =
               Potentials (xvf s) 1 \<and>
               is_Done (TPME_compute mid_env spme_solver (s, mesh4))"
    if "N s = 1" "domain_x s = domain_y s" "domain_x s = domain_z s" for s
  proof -
    have sched: "\<forall>share \<in> set (env_schedule mid_env
        (N (fst (s\<lparr>xvf := zero_below (N s) (xvf s)\<rparr>, mesh4)))). 1 \<notin> set share"
      using that(1) by (simp add: mid_env_def)
    have "Potentials (xvf (fst (state (TPME_accumulate mid_env spme_solver
             (s\<lparr>xvf := zero_below (N s) (xvf s)\<rparr>, mesh4))))) 1 =
          Potentials (xvf (fst (s\<lparr>xvf := zero_below (N s) (xvf s)\<rparr>, mesh4))) 1"
      by (rule TPME_accumulate_Potentials[OF _ sched]) (simp add: that(1))
    then show ?thesis
      using that
      by (simp add: TPME_compute_zeroes_first TPME_accumulate_completes zero_below_fields)
  qed
  have a: "N ghost_system_stale = 1" "domain_x ghost_system_stale = domain_y ghost_system_stale"
    "domain_x ghost_system_stale = domain_z ghost_system_stale"
    "Potentials (xvf ghost_system_stale) 1 = 5" "N_max ghost_system_stale = 2"
    by (simp_all add: ghost_system_stale_def pair_apart_stale_def stale_potentials_def)
  have b: "N ghost_system_clean = 1" "domain_x ghost_system_clean = domain_y ghost_system_clean"
    "domain_x ghost_system_clean = domain_z ghost_system_clean"
    "Potentials (xvf ghost_system_clean) 1 = 0" "N_max ghost_system_clean = 2"
    by (simp_all add: ghost_system_clean_def pair_apart_def)
  show ?thesis
    using frame[OF a(1) a(2) a(3)] frame[OF b(1) b(2) b(3)] a(4) a(5) b(4) b(5) by simp
qed


end
